theory Spec2Isabelle
  imports Main "HOL-Library.List_Lexorder" "HOL-Library.Char_ord"
begin

section \<open>Data model of the appointment service\<close>

text \<open>
  The mock backend \<^verbatim>\<open>AppointmentService\<close>, in the form that generates one week of slots
  and answers with \<^verbatim>\<open>{ success, booking, error }\<close> objects, keeps three private arrays: the
  bookings, the generated time slots and the availability rules. Its interfaces become
  records; the field names \<^verbatim>\<open>id\<close>, \<^verbatim>\<open>date\<close>, \<^verbatim>\<open>time\<close> and \<^verbatim>\<open>reason\<close>, which several
  interfaces share, carry the interface as a prefix.
\<close>

datatype status = Pending | Approved | Denied

record TimeSlot =
  slot_id :: string
  slot_date :: string
  slot_time :: string
  available :: bool

record Booking =
  booking_id :: string
  slotId :: string
  name :: string
  email :: string
  reason :: string
  status :: status
  booking_date :: string
  booking_time :: string
  createdAt :: string

record AvailabilityRule =
  rule_id :: string
  rule_date :: string
  timeSlots :: "string list"
  isBlocked :: bool
  rule_reason :: "string option"
  rule_createdAt :: string

record AppointmentService =
  bookings :: "Booking list"
  slots :: "TimeSlot list"
  availabilityRules :: "AvailabilityRule list"

text \<open>The \<^verbatim>\<open>error\<close> strings of the result objects, one constructor per message.\<close>

datatype error =
    MissingRequiredInformation
  | InvalidEmailAddress
  | InvalidTimeSlot
  | TimeSlotAlreadyBooked
  | BookingNotFound
  | AvailabilityRuleNotFound

fun error_message :: "error \<Rightarrow> string" where
  "error_message MissingRequiredInformation = ''Missing required information''"
| "error_message InvalidEmailAddress = ''Invalid email address''"
| "error_message InvalidTimeSlot = ''Invalid time slot''"
| "error_message TimeSlotAlreadyBooked = ''Time slot is already booked''"
| "error_message BookingNotFound = ''Booking not found''"
| "error_message AvailabilityRuleNotFound = ''Availability rule not found''"

text \<open>
  The argument of \<^verbatim>\<open>updateBookingStatus\<close> has the type \<^verbatim>\<open>'approved' | 'denied'\<close>: a booking
  cannot be sent back to pending.
\<close>

datatype decision = approved | denied

fun decided :: "decision \<Rightarrow> status" where
  "decided approved = Approved"
| "decided denied = Denied"

fun status_string :: "status \<Rightarrow> string" where
  "status_string Pending = ''pending''"
| "status_string Approved = ''approved''"
| "status_string Denied = ''denied''"

record BookingData =
  data_slotId :: string
  data_name :: string
  data_email :: string
  data_reason :: string

record AvailabilityData =
  data_date :: string
  data_timeSlots :: "string list"
  data_isBlocked :: bool
  data_rule_reason :: "string option"

section \<open>The runtime's Date object\<close>

text \<open>
  A \<^verbatim>\<open>Date\<close> is its time value: the milliseconds since 1970-01-01T00:00Z. The getters and
  \<^verbatim>\<open>setDate\<close> work in local time, \<^verbatim>\<open>toISOString\<close> in UTC. The runtime is a clock reading
  and the local zone, as the minutes that local time is ahead of UTC (a fixed offset).
\<close>

record runtime =
  now :: int
  zone :: int

definition msPerDay :: int where
  "msPerDay = 86400000"

definition localTime :: "int \<Rightarrow> int \<Rightarrow> int" where
  "localTime z t = t + z * 60000"

definition dayNumber :: "int \<Rightarrow> int" where
  "dayNumber t = t div msPerDay"

text \<open>Day 0 was a Thursday; 0 is Sunday, 6 is Saturday.\<close>

definition weekDay :: "int \<Rightarrow> int" where
  "weekDay d = (d + 4) mod 7"

text \<open>
  The proleptic Gregorian date (year, month, day of the month) of a day number, by eras
  of 400 years that start on a first of March: the year of the era from the day of the
  era, the day of that year, the month counted from March, the day of the month.
\<close>

definition civilDate :: "int \<Rightarrow> int \<Rightarrow> int \<Rightarrow> int \<times> int \<times> int" where
  "civilDate y m d = (y + (if m \<le> 2 then 1 else 0), m, d)"

definition civilMonth :: "int \<Rightarrow> int \<Rightarrow> int \<Rightarrow> int \<times> int \<times> int" where
  "civilMonth y doy mp =
     civilDate y (if mp < 10 then mp + 3 else mp - 9) (doy - (153 * mp + 2) div 5 + 1)"

definition civilYear :: "int \<Rightarrow> int \<Rightarrow> int \<Rightarrow> int \<times> int \<times> int" where
  "civilYear era doe yoe =
     civilMonth (yoe + era * 400)
       (doe - (365 * yoe + yoe div 4 - yoe div 100))
       ((5 * (doe - (365 * yoe + yoe div 4 - yoe div 100)) + 2) div 153)"

definition civilEra :: "int \<Rightarrow> int \<Rightarrow> int \<times> int \<times> int" where
  "civilEra era doe =
     civilYear era doe ((doe - doe div 1460 + doe div 36524 - doe div 146096) div 365)"

definition civil :: "int \<Rightarrow> int \<times> int \<times> int" where
  "civil d = civilEra ((d + 719468) div 146097) ((d + 719468) mod 146097)"

definition getDay :: "int \<Rightarrow> int \<Rightarrow> int" where
  "getDay z t = weekDay (dayNumber (localTime z t))"

definition getDate :: "int \<Rightarrow> int \<Rightarrow> int" where
  "getDate z t = snd (snd (civil (dayNumber (localTime z t))))"

text \<open>
  \<^verbatim>\<open>setDate(n)\<close> moves the date to day \<open>n\<close> counted from the first of the local month, days
  before the first or after the last rolling over, and keeps the local time of day: the
  time value moves by \<open>n - getDate()\<close> days.
\<close>

definition setDate :: "int \<Rightarrow> int \<Rightarrow> int \<Rightarrow> int" where
  "setDate z t n = t + (n - getDate z t) * msPerDay"

function toString :: "nat \<Rightarrow> string" where
  "toString n =
     (if n < 10 then [''0123456789'' ! n]
      else toString (n div 10) @ [''0123456789'' ! (n mod 10)])"
  by pat_completeness auto
termination
  by (relation "measure (\<lambda>n. n)") auto

declare toString.simps [simp del]

definition padStart :: "nat \<Rightarrow> char \<Rightarrow> string \<Rightarrow> string" where
  "padStart k c s = replicate (k - length s) c @ s"

text \<open>
  \<^verbatim>\<open>toISOString().split('T')[0]\<close>: the UTC date, with four digits for the years 0 to 9999
  and a sign and six digits for the others.
\<close>

definition isoYear :: "int \<Rightarrow> string" where
  "isoYear y =
     (if 0 \<le> y \<and> y \<le> 9999 then padStart 4 (CHR ''0'') (toString (nat y))
      else (if y < 0 then ''-'' else ''+'') @ padStart 6 (CHR ''0'') (toString (nat \<bar>y\<bar>)))"

definition isoDay :: "int \<Rightarrow> string" where
  "isoDay d =
     (case civil d of (y, m, dd) \<Rightarrow>
        isoYear y @ ''-'' @ padStart 2 (CHR ''0'') (toString (nat m)) @ ''-'' @
        padStart 2 (CHR ''0'') (toString (nat dd)))"

definition toISODate :: "int \<Rightarrow> string" where
  "toISODate t = isoDay (dayNumber t)"

section \<open>Slot generation\<close>

definition getStartOfWeek :: "runtime \<Rightarrow> int" where
  "getStartOfWeek rt =
     (let today = now rt;
          day = getDay (zone rt) today;
          diff = getDate (zone rt) today - day + (if day = 0 then - 6 else 1)
      in setDate (zone rt) today diff)"

definition timeOfDay :: "nat \<Rightarrow> nat \<Rightarrow> string" where
  "timeOfDay hour minute =
     padStart 2 (CHR ''0'') (toString hour) @ '':'' @ padStart 2 (CHR ''0'') (toString minute)"

definition newSlot :: "int \<Rightarrow> string \<Rightarrow> TimeSlot" where
  "newSlot currentDate time =
     \<lparr>slot_id = toISODate currentDate @ ''-'' @ time,
      slot_date = toISODate currentDate,
      slot_time = time,
      available = True\<rparr>"

text \<open>The two inner loops: the hours 9 to 16, and the minutes 0 and 30 of each.\<close>

definition daySlots :: "int \<Rightarrow> TimeSlot list" where
  "daySlots currentDate =
     concat (map (\<lambda>hour.
        map (\<lambda>minute. newSlot currentDate (timeOfDay hour minute))
          (filter (\<lambda>minute. minute mod 30 = 0) [0..<60]))
       [9..<17])"

definition generateWeeklySlots :: "runtime \<Rightarrow> TimeSlot list" where
  "generateWeeklySlots rt =
     (let startDate = getStartOfWeek rt
      in concat (map (\<lambda>day.
           daySlots (setDate (zone rt) startDate (getDate (zone rt) startDate + int day)))
          [0..<5]))"

text \<open>The constructor: no booking, no rule, the slots of the current week.\<close>

definition newAppointmentService :: "runtime \<Rightarrow> AppointmentService" where
  "newAppointmentService rt =
     \<lparr>bookings = [], slots = generateWeeklySlots rt, availabilityRules = []\<rparr>"

section \<open>The operations of the service\<close>

text \<open>
  Every operation takes the store and returns its result with the store it leaves, so
  that what an operation does not touch is part of what is proved. The delays, the
  console output and the calendar invite (a log line) leave no trace in the store.
  The fresh id (\<^verbatim>\<open>Date.now()\<close> and \<^verbatim>\<open>Math.random()\<close>) and the creation timestamp
  come from the runtime and are parameters. The two listings, \<^verbatim>\<open>getAllBookings\<close> and
  \<^verbatim>\<open>getAvailabilityRules\<close>, sort a copy and are left out.
\<close>

definition bookedSlotIds :: "AppointmentService \<Rightarrow> string list" where
  "bookedSlotIds s =
     map slotId (filter (\<lambda>booking. status booking \<noteq> Denied) (bookings s))"

definition ruleSlotIds :: "AvailabilityRule \<Rightarrow> string list" where
  "ruleSlotIds rule = map (\<lambda>time. rule_date rule @ ''-'' @ time) (timeSlots rule)"

definition blockedSlotIds :: "AppointmentService \<Rightarrow> string set" where
  "blockedSlotIds s =
     set (concat (map ruleSlotIds (filter isBlocked (availabilityRules s))))"

definition getAvailableSlots :: "AppointmentService \<Rightarrow> TimeSlot list \<times> AppointmentService" where
  "getAvailableSlots s =
     (map (\<lambda>slot. slot\<lparr>available :=
              slot_id slot \<notin> set (bookedSlotIds s) \<and> slot_id slot \<notin> blockedSlotIds s\<rparr>)
        (slots s), s)"

definition createBooking ::
  "string \<Rightarrow> string \<Rightarrow> BookingData \<Rightarrow> AppointmentService \<Rightarrow>
     (error + Booking) \<times> AppointmentService" where
  "createBooking newId created d s =
     (if data_name d = [] \<or> data_email d = [] \<or> data_reason d = []
      then (Inl MissingRequiredInformation, s)
      else if CHR ''@'' \<notin> set (data_email d)
      then (Inl InvalidEmailAddress, s)
      else
        (case find (\<lambda>sl. slot_id sl = data_slotId d) (slots s) of
           None \<Rightarrow> (Inl InvalidTimeSlot, s)
         | Some slot \<Rightarrow>
            (case find (\<lambda>booking. slotId booking = data_slotId d \<and> status booking \<noteq> Denied)
                    (bookings s) of
               Some existingBooking \<Rightarrow> (Inl TimeSlotAlreadyBooked, s)
             | None \<Rightarrow>
                (let booking =
                   \<lparr>booking_id = newId,
                    slotId = data_slotId d,
                    name = data_name d,
                    email = data_email d,
                    reason = data_reason d,
                    status = Pending,
                    booking_date = slot_date slot,
                    booking_time = slot_time slot,
                    createdAt = created\<rparr>
                 in (Inr booking, s\<lparr>bookings := bookings s @ [booking]\<rparr>)))))"

text \<open>
  \<^verbatim>\<open>find\<close> returns the first booking with the id, and the assignment to its \<^verbatim>\<open>status\<close>
  changes that element of the array in place.
\<close>

fun setStatus :: "string \<Rightarrow> status \<Rightarrow> Booking list \<Rightarrow> Booking list" where
  "setStatus bookingId st [] = []"
| "setStatus bookingId st (b # bs) =
     (if booking_id b = bookingId then b\<lparr>status := st\<rparr> # bs
      else b # setStatus bookingId st bs)"

definition updateBookingStatus ::
  "string \<Rightarrow> decision \<Rightarrow> AppointmentService \<Rightarrow> (error + Booking) \<times> AppointmentService" where
  "updateBookingStatus bookingId st s =
     (case find (\<lambda>b. booking_id b = bookingId) (bookings s) of
        None \<Rightarrow> (Inl BookingNotFound, s)
      | Some booking \<Rightarrow>
          (Inr (booking\<lparr>status := decided st\<rparr>),
           s\<lparr>bookings := setStatus bookingId (decided st) (bookings s)\<rparr>))"

fun join :: "string \<Rightarrow> string list \<Rightarrow> string" where
  "join sep [] = []"
| "join sep [x] = x"
| "join sep (x # y # ys) = x @ sep @ join sep (y # ys)"

definition headers :: "string list" where
  "headers = [''ID'', ''Name'', ''Email'', ''Date'', ''Time'', ''Reason'', ''Status'', ''Created At'']"

text \<open>
  \<^verbatim>\<open>new Date(booking.createdAt).toLocaleString()\<close> depends on the locale of the runtime: the
  rendering is the parameter \<open>toLocaleString\<close>.
\<close>

definition bookingRow :: "(string \<Rightarrow> string) \<Rightarrow> Booking \<Rightarrow> string list" where
  "bookingRow toLocaleString booking =
     [booking_id booking, name booking, email booking, booking_date booking,
      booking_time booking, reason booking, status_string (status booking),
      toLocaleString (createdAt booking)]"

definition quoted :: "string \<Rightarrow> string" where
  "quoted field = [CHR 0x22] @ field @ [CHR 0x22]"

definition exportBookingsCSV ::
  "(string \<Rightarrow> string) \<Rightarrow> AppointmentService \<Rightarrow> string \<times> AppointmentService" where
  "exportBookingsCSV toLocaleString s =
     (join [CHR 0x0A]
        (map (\<lambda>row. join '','' (map quoted row))
           (headers # map (bookingRow toLocaleString) (bookings s))), s)"

definition setAvailability ::
  "string \<Rightarrow> string \<Rightarrow> AvailabilityData \<Rightarrow> AppointmentService \<Rightarrow>
     AvailabilityRule \<times> AppointmentService" where
  "setAvailability newId created d s =
     (let rule =
        \<lparr>rule_id = newId,
         rule_date = data_date d,
         timeSlots = data_timeSlots d,
         isBlocked = data_isBlocked d,
         rule_reason = data_rule_reason d,
         rule_createdAt = created\<rparr>
      in (rule,
          s\<lparr>availabilityRules :=
               filter (\<lambda>r. rule_date r \<noteq> data_date d) (availabilityRules s) @ [rule]\<rparr>))"

text \<open>\<^verbatim>\<open>findIndex\<close> and \<^verbatim>\<open>splice(ruleIndex, 1)\<close>: the first rule with the id goes.\<close>

fun spliceRule :: "string \<Rightarrow> AvailabilityRule list \<Rightarrow> AvailabilityRule list" where
  "spliceRule ruleId [] = []"
| "spliceRule ruleId (r # rs) =
     (if rule_id r = ruleId then rs else r # spliceRule ruleId rs)"

definition deleteAvailabilityRule ::
  "string \<Rightarrow> AppointmentService \<Rightarrow> (error + unit) \<times> AppointmentService" where
  "deleteAvailabilityRule ruleId s =
     (case find (\<lambda>rule. rule_id rule = ruleId) (availabilityRules s) of
        None \<Rightarrow> (Inl AvailabilityRuleNotFound, s)
      | Some rule \<Rightarrow>
          (Inr (), s\<lparr>availabilityRules := spliceRule ruleId (availabilityRules s)\<rparr>))"

section \<open>Reachable stores and the properties stated of them\<close>

text \<open>
  A store is reachable when the constructor made it and the operations that write
  brought it there; the reading operations return the store as it was.
\<close>

inductive reachable :: "AppointmentService \<Rightarrow> bool" where
  constructed: "reachable (newAppointmentService rt)"
| created: "reachable s \<Longrightarrow> reachable (snd (createBooking newId created d s))"
| decided: "reachable s \<Longrightarrow> reachable (snd (updateBookingStatus bookingId st s))"
| ruled: "reachable s \<Longrightarrow> reachable (snd (setAvailability newId created a s))"
| deleted: "reachable s \<Longrightarrow> reachable (snd (deleteAvailabilityRule ruleId s))"

text \<open>No slot id is claimed by two bookings that are not denied.\<close>

definition noDoubleBooking :: "AppointmentService \<Rightarrow> bool" where
  "noDoubleBooking s = distinct (bookedSlotIds s)"

text \<open>What a slot list reports for a slot id: the flags of the slots with that id.\<close>

definition reported :: "string \<Rightarrow> TimeSlot list \<Rightarrow> bool list" where
  "reported slotid ss = map available (filter (\<lambda>slot. slot_id slot = slotid) ss)"

text \<open>The half hours from 09:00 up to 17:00, as the specification lists them.\<close>

definition timeGrid :: "string list" where
  "timeGrid =
     [''09:00'', ''09:30'', ''10:00'', ''10:30'', ''11:00'', ''11:30'', ''12:00'', ''12:30'',
      ''13:00'', ''13:30'', ''14:00'', ''14:30'', ''15:00'', ''15:30'', ''16:00'', ''16:30'']"

text \<open>A field quoted by the standard rule: every double quote inside is doubled.\<close>

definition csvEscaped :: "string \<Rightarrow> string" where
  "csvEscaped field =
     [CHR 0x22] @ concat (map (\<lambda>c. if c = CHR 0x22 then [c, c] else [c]) field) @ [CHR 0x22]"

text \<open>
  A submission that passes the checks on its fields and names a generated slot.
\<close>

definition validFor :: "BookingData \<Rightarrow> AppointmentService \<Rightarrow> bool" where
  "validFor d s =
     (data_name d \<noteq> [] \<and> data_email d \<noteq> [] \<and> data_reason d \<noteq> [] \<and>
      CHR ''@'' \<in> set (data_email d) \<and> data_slotId d \<in> slot_id ` set (slots s))"

section \<open>Example runs\<close>

text \<open>
  Two runtimes: a browser on UTC on Monday 2024-01-08 at 09:00, and a browser five and a
  half hours ahead of UTC on the same Monday at 02:00 local time, which is Sunday
  2024-01-07 at 20:30 UTC.
\<close>

definition mondayMorningUTC :: runtime where
  "mondayMorningUTC = \<lparr>now = 1704704400000, zone = 0\<rparr>"

definition mondayNightIndia :: runtime where
  "mondayNightIndia = \<lparr>now = 1704659400000, zone = 330\<rparr>"

definition freshStore :: AppointmentService where
  "freshStore = newAppointmentService mondayMorningUTC"

definition stamp :: string where
  "stamp = ''2024-01-08T09:00:00.000Z''"

definition aliceId :: string where
  "aliceId = ''booking-1704704400000-k3x9q2m1a''"

definition bobId :: string where
  "bobId = ''booking-1704704460000-b7w2n5c8d''"

definition ruleId :: string where
  "ruleId = ''rule-1704704400000-r4t8v1z6y''"

definition otherRuleId :: string where
  "otherRuleId = ''rule-1704704460000-p2s5u9e3h''"

definition alice :: BookingData where
  "alice =
     \<lparr>data_slotId = ''2024-01-08-09:00'', data_name = ''Alice'',
      data_email = ''alice@example.com'', data_reason = ''He said \"hi\"''\<rparr>"

definition bob :: BookingData where
  "bob =
     \<lparr>data_slotId = ''2024-01-08-09:00'', data_name = ''Bob'',
      data_email = ''bob@example.com'', data_reason = ''Checkup''\<rparr>"

text \<open>Submissions that break several rules at once.\<close>

definition noNameNoEmail :: BookingData where
  "noNameNoEmail =
     \<lparr>data_slotId = ''2024-01-08-09:00'', data_name = [], data_email = [],
      data_reason = ''Checkup''\<rparr>"

definition noEmail :: BookingData where
  "noEmail =
     \<lparr>data_slotId = ''2024-01-08-09:00'', data_name = ''Bob'', data_email = [],
      data_reason = ''Checkup''\<rparr>"

definition badEmailNoReason :: BookingData where
  "badEmailNoReason =
     \<lparr>data_slotId = ''2024-01-08-09:00'', data_name = ''Bob'', data_email = ''bob'',
      data_reason = []\<rparr>"

text \<open>
  Alice books Monday 09:00 and is denied, Bob books the freed slot, and Alice's booking is
  decided again.
\<close>

definition aliceBooked :: AppointmentService where
  "aliceBooked = snd (createBooking aliceId stamp alice freshStore)"

definition aliceDenied :: AppointmentService where
  "aliceDenied = snd (updateBookingStatus aliceId denied aliceBooked)"

definition bobBooked :: AppointmentService where
  "bobBooked = snd (createBooking bobId stamp bob aliceDenied)"

definition aliceApproved :: AppointmentService where
  "aliceApproved = snd (updateBookingStatus aliceId approved bobBooked)"

text \<open>A submission whose only fault is the email, and one for a Saturday.\<close>

definition badEmail :: BookingData where
  "badEmail =
     \<lparr>data_slotId = ''2024-01-08-09:00'', data_name = ''Bob'', data_email = ''bob'',
      data_reason = ''Checkup''\<rparr>"

definition saturday :: BookingData where
  "saturday =
     \<lparr>data_slotId = ''2024-01-13-09:00'', data_name = ''Bob'',
      data_email = ''bob@example.com'', data_reason = ''Checkup''\<rparr>"

text \<open>Rules: Monday 09:00 blocked, and a rule whose date is only the year.\<close>

definition blockNine :: AvailabilityData where
  "blockNine =
     \<lparr>data_date = ''2024-01-08'', data_timeSlots = [''09:00''], data_isBlocked = True,
      data_rule_reason = None\<rparr>"

definition openMonday :: AvailabilityData where
  "openMonday =
     \<lparr>data_date = ''2024-01-08'', data_timeSlots = [], data_isBlocked = False,
      data_rule_reason = None\<rparr>"

definition blockYear :: AvailabilityData where
  "blockYear =
     \<lparr>data_date = ''2024'', data_timeSlots = [''01-08-09:00''], data_isBlocked = True,
      data_rule_reason = None\<rparr>"

definition nineBlocked :: AppointmentService where
  "nineBlocked = snd (setAvailability otherRuleId stamp blockNine freshStore)"

definition yearBlocked :: AppointmentService where
  "yearBlocked = snd (setAvailability otherRuleId stamp blockYear freshStore)"

text \<open>Blocking Monday 09:00 and deleting the new rule again, on a store.\<close>

definition blockThenDelete :: "AppointmentService \<Rightarrow> AppointmentService" where
  "blockThenDelete s =
     snd (deleteAvailabilityRule ruleId (snd (setAvailability ruleId stamp blockNine s)))"

section \<open>The calendar arithmetic of slot generation\<close>

lemma toString_digit: "n < 10 \<Longrightarrow> toString n = [''0123456789'' ! n]"
  by (subst toString.simps) simp

lemma toString_more:
  "\<not> n < 10 \<Longrightarrow> toString n = toString (n div 10) @ [''0123456789'' ! (n mod 10)]"
  by (subst toString.simps) simp

lemma setDate_shift: "setDate z t (getDate z t + k) = t + k * msPerDay"
  by (simp add: setDate_def)

lemma getStartOfWeek_shift:
  "getStartOfWeek rt =
     now rt + ((if getDay (zone rt) (now rt) = 0 then - 6 else 1) - getDay (zone rt) (now rt)) * msPerDay"
  by (simp add: getStartOfWeek_def Let_def setDate_def algebra_simps)

lemma minutes_of_hour: "filter (\<lambda>minute. minute mod 30 = 0) [0..<60] = [0, 30 :: nat]"
  by (simp add: upt_rec)

lemma daySlots_grid: "daySlots t = map (newSlot t) timeGrid"
  by (simp add: daySlots_def minutes_of_hour timeGrid_def timeOfDay_def padStart_def
      toString_digit toString_more upt_rec)

lemma generateWeeklySlots_days:
  "generateWeeklySlots rt =
     concat (map (\<lambda>day. map (newSlot (getStartOfWeek rt + int day * msPerDay)) timeGrid) [0..<5])"
  by (simp add: generateWeeklySlots_def Let_def setDate_shift daySlots_grid)

subsection \<open>Evaluating the calendar\<close>

lemmas civil_eval = civil_def civilEra_def civilYear_def civilMonth_def civilDate_def

lemmas date_eval = getDay_def weekDay_def dayNumber_def localTime_def msPerDay_def
  civil_eval toISODate_def isoDay_def isoYear_def padStart_def toString_digit toString_more

lemma start_mondayMorningUTC: "getStartOfWeek mondayMorningUTC = 1704704400000"
  by (simp add: getStartOfWeek_shift mondayMorningUTC_def date_eval)

lemma start_mondayNightIndia: "getStartOfWeek mondayNightIndia = 1704659400000"
  by (simp add: getStartOfWeek_shift mondayNightIndia_def date_eval)

lemma freshStore_slots:
  "slots freshStore =
     concat (map (\<lambda>d. map (\<lambda>t. \<lparr>slot_id = d @ ''-'' @ t, slot_date = d, slot_time = t,
                               available = True\<rparr>) timeGrid)
       [''2024-01-08'', ''2024-01-09'', ''2024-01-10'', ''2024-01-11'', ''2024-01-12''])"
  apply (simp add: freshStore_def newAppointmentService_def generateWeeklySlots_days
      start_mondayMorningUTC upt_rec newSlot_def)
  apply (simp add: date_eval)
  done

lemma freshStore_empty: "bookings freshStore = []" "availabilityRules freshStore = []"
  by (simp_all add: freshStore_def newAppointmentService_def)

lemma monday_nine_found:
  "find (\<lambda>sl. slot_id sl = ''2024-01-08-09:00'') (slots freshStore) =
     Some \<lparr>slot_id = ''2024-01-08-09:00'', slot_date = ''2024-01-08'', slot_time = ''09:00'',
           available = True\<rparr>"
  by (simp add: freshStore_slots timeGrid_def)

lemma monday_nine_only:
  "filter (\<lambda>sl. slot_id sl = ''2024-01-08-09:00'') (slots freshStore) =
     [\<lparr>slot_id = ''2024-01-08-09:00'', slot_date = ''2024-01-08'', slot_time = ''09:00'',
       available = True\<rparr>]"
  by (simp add: freshStore_slots timeGrid_def)

section \<open>What each operation leaves alone\<close>

lemma slots_createBooking: "slots (snd (createBooking i c d s)) = slots s"
  by (simp add: createBooking_def Let_def split: option.splits)

lemma rules_createBooking:
  "availabilityRules (snd (createBooking i c d s)) = availabilityRules s"
  by (simp add: createBooking_def Let_def split: option.splits)

lemma slots_updateBookingStatus: "slots (snd (updateBookingStatus i st s)) = slots s"
  by (simp add: updateBookingStatus_def split: option.splits)

lemma rules_updateBookingStatus:
  "availabilityRules (snd (updateBookingStatus i st s)) = availabilityRules s"
  by (simp add: updateBookingStatus_def split: option.splits)

lemma slots_setAvailability: "slots (snd (setAvailability i c a s)) = slots s"
  by (simp add: setAvailability_def Let_def)

lemma bookings_setAvailability: "bookings (snd (setAvailability i c a s)) = bookings s"
  by (simp add: setAvailability_def Let_def)

lemma slots_deleteAvailabilityRule: "slots (snd (deleteAvailabilityRule i s)) = slots s"
  by (simp add: deleteAvailabilityRule_def split: option.splits)

lemma bookings_deleteAvailabilityRule:
  "bookings (snd (deleteAvailabilityRule i s)) = bookings s"
  by (simp add: deleteAvailabilityRule_def split: option.splits)

lemmas frame = slots_createBooking rules_createBooking slots_updateBookingStatus
  rules_updateBookingStatus slots_setAvailability bookings_setAvailability
  slots_deleteAvailabilityRule bookings_deleteAvailabilityRule

section \<open>The example runs, step by step\<close>

lemma aliceBooked_bookings:
  "bookings aliceBooked =
     [\<lparr>booking_id = aliceId, slotId = ''2024-01-08-09:00'', name = ''Alice'',
       email = ''alice@example.com'', reason = ''He said \"hi\"'', status = Pending,
       booking_date = ''2024-01-08'', booking_time = ''09:00'', createdAt = stamp\<rparr>]"
  by (simp add: aliceBooked_def createBooking_def Let_def alice_def monday_nine_found
      freshStore_empty)

lemma aliceBooked_slots: "slots aliceBooked = slots freshStore"
  by (simp add: aliceBooked_def frame)

lemma aliceDenied_bookings:
  "bookings aliceDenied =
     [\<lparr>booking_id = aliceId, slotId = ''2024-01-08-09:00'', name = ''Alice'',
       email = ''alice@example.com'', reason = ''He said \"hi\"'', status = Denied,
       booking_date = ''2024-01-08'', booking_time = ''09:00'', createdAt = stamp\<rparr>]"
  by (simp add: aliceDenied_def updateBookingStatus_def aliceBooked_bookings)

lemma aliceDenied_slots: "slots aliceDenied = slots freshStore"
  by (simp add: aliceDenied_def aliceBooked_slots frame)

lemma bobBooked_bookings:
  "bookings bobBooked =
     [\<lparr>booking_id = aliceId, slotId = ''2024-01-08-09:00'', name = ''Alice'',
       email = ''alice@example.com'', reason = ''He said \"hi\"'', status = Denied,
       booking_date = ''2024-01-08'', booking_time = ''09:00'', createdAt = stamp\<rparr>,
      \<lparr>booking_id = bobId, slotId = ''2024-01-08-09:00'', name = ''Bob'',
       email = ''bob@example.com'', reason = ''Checkup'', status = Pending,
       booking_date = ''2024-01-08'', booking_time = ''09:00'', createdAt = stamp\<rparr>]"
  by (simp add: bobBooked_def createBooking_def Let_def bob_def aliceDenied_bookings
      aliceDenied_slots monday_nine_found)

lemma aliceApproved_bookings:
  "bookings aliceApproved =
     [\<lparr>booking_id = aliceId, slotId = ''2024-01-08-09:00'', name = ''Alice'',
       email = ''alice@example.com'', reason = ''He said \"hi\"'', status = Approved,
       booking_date = ''2024-01-08'', booking_time = ''09:00'', createdAt = stamp\<rparr>,
      \<lparr>booking_id = bobId, slotId = ''2024-01-08-09:00'', name = ''Bob'',
       email = ''bob@example.com'', reason = ''Checkup'', status = Pending,
       booking_date = ''2024-01-08'', booking_time = ''09:00'', createdAt = stamp\<rparr>]"
  by (simp add: aliceApproved_def updateBookingStatus_def bobBooked_bookings)

section \<open>Booking creation\<close>

lemma find_slot_None:
  "find (\<lambda>sl. slot_id sl = i) ss = None \<longleftrightarrow> i \<notin> slot_id ` set ss"
  by (auto simp: find_None_iff)

lemma find_booking_None:
  "find (\<lambda>b. booking_id b = i) bs = None \<longleftrightarrow> i \<notin> booking_id ` set bs"
  by (auto simp: find_None_iff)

lemma find_conflict_None:
  "find (\<lambda>b. slotId b = i \<and> status b \<noteq> Denied) (bookings s) = None \<longleftrightarrow>
     i \<notin> set (bookedSlotIds s)"
  by (auto simp: find_None_iff bookedSlotIds_def)

text \<open>The checks of \<^verbatim>\<open>createBooking\<close> in the order the code makes them.\<close>

lemma createBooking_cases:
  "createBooking newId created d s =
     (if data_name d = [] \<or> data_email d = [] \<or> data_reason d = []
      then (Inl MissingRequiredInformation, s)
      else if CHR ''@'' \<notin> set (data_email d) then (Inl InvalidEmailAddress, s)
      else if data_slotId d \<notin> slot_id ` set (slots s) then (Inl InvalidTimeSlot, s)
      else if data_slotId d \<in> set (bookedSlotIds s) then (Inl TimeSlotAlreadyBooked, s)
      else (Inr \<lparr>booking_id = newId, slotId = data_slotId d, name = data_name d,
                 email = data_email d, reason = data_reason d, status = Pending,
                 booking_date =
                   slot_date (the (find (\<lambda>sl. slot_id sl = data_slotId d) (slots s))),
                 booking_time =
                   slot_time (the (find (\<lambda>sl. slot_id sl = data_slotId d) (slots s))),
                 createdAt = created\<rparr>,
            s\<lparr>bookings := bookings s @
                 [\<lparr>booking_id = newId, slotId = data_slotId d, name = data_name d,
                   email = data_email d, reason = data_reason d, status = Pending,
                   booking_date =
                     slot_date (the (find (\<lambda>sl. slot_id sl = data_slotId d) (slots s))),
                   booking_time =
                     slot_time (the (find (\<lambda>sl. slot_id sl = data_slotId d) (slots s))),
                   createdAt = created\<rparr>]\<rparr>))"
proof -
  have slot: "find (\<lambda>sl. slot_id sl = data_slotId d) (slots s) = None \<longleftrightarrow>
      data_slotId d \<notin> slot_id ` set (slots s)"
    by (rule find_slot_None)
  have conflict:
    "find (\<lambda>b. slotId b = data_slotId d \<and> status b \<noteq> Denied) (bookings s) = None \<longleftrightarrow>
      data_slotId d \<notin> set (bookedSlotIds s)"
    by (rule find_conflict_None)
  show ?thesis
    using slot conflict
    by (cases "find (\<lambda>sl. slot_id sl = data_slotId d) (slots s)";
        cases "find (\<lambda>b. slotId b = data_slotId d \<and> status b \<noteq> Denied) (bookings s)")
       (simp_all add: createBooking_def Let_def)
qed

text \<open>
  Claim C9. \<^verbatim>\<open>createBooking\<close> is atomic on failure: whenever it returns an error, the
  store it leaves is the store it was given, bookings, slots and rules alike. On
  success the store differs only by the new booking, which is pending and appended at
  the end of the bookings.
\<close>

theorem createBooking_atomic:
  "(\<forall>e. fst (createBooking newId created d s) = Inl e \<longrightarrow>
        snd (createBooking newId created d s) = s) \<and>
   (\<forall>b. fst (createBooking newId created d s) = Inr b \<longrightarrow>
        snd (createBooking newId created d s) = s\<lparr>bookings := bookings s @ [b]\<rparr> \<and>
        status b = Pending \<and> slotId b = data_slotId d)"
  by (simp add: createBooking_cases)

lemma noEmail_rejected:
  "fst (createBooking bobId stamp noEmail freshStore) = Inl MissingRequiredInformation"
  by (simp add: createBooking_def noEmail_def)

lemma alice_accepted:
  "fst (createBooking aliceId stamp alice freshStore) =
     Inr \<lparr>booking_id = aliceId, slotId = ''2024-01-08-09:00'', name = ''Alice'',
       email = ''alice@example.com'', reason = ''He said \"hi\"'', status = Pending,
       booking_date = ''2024-01-08'', booking_time = ''09:00'', createdAt = stamp\<rparr>"
  by (simp add: createBooking_def Let_def alice_def monday_nine_found freshStore_empty)

text \<open>
  On the fresh store, a submission without an email fails and leaves the store as it
  was, and Alice's submission succeeds and appends her booking.
\<close>

theorem createBooking_atomic_witness:
  "fst (createBooking bobId stamp noEmail freshStore) = Inl MissingRequiredInformation \<and>
   snd (createBooking bobId stamp noEmail freshStore) = freshStore \<and>
   (\<exists>b. fst (createBooking aliceId stamp alice freshStore) = Inr b \<and>
        snd (createBooking aliceId stamp alice freshStore) =
          freshStore\<lparr>bookings := bookings freshStore @ [b]\<rparr>)"
  using createBooking_atomic [of bobId stamp noEmail freshStore]
    createBooking_atomic [of aliceId stamp alice freshStore]
    noEmail_rejected alice_accepted
  by blast

lemma createBooking_success:
  assumes "validFor d s" and "data_slotId d \<notin> set (bookedSlotIds s)"
  shows "\<exists>b. createBooking i c d s = (Inr b, s\<lparr>bookings := bookings s @ [b]\<rparr>) \<and>
    booking_id b = i \<and> slotId b = data_slotId d \<and> status b = Pending"
  using assms by (simp add: createBooking_cases validFor_def)

lemma validFor_slots: "slots s' = slots s \<Longrightarrow> validFor d s' = validFor d s"
  by (simp add: validFor_def)

lemma bookedSlotIds_append:
  "bookedSlotIds (s\<lparr>bookings := bookings s @ [b]\<rparr>) =
     bookedSlotIds s @ (if status b \<noteq> Denied then [slotId b] else [])"
  by (simp add: bookedSlotIds_def)

subsection \<open>The submissions of the examples\<close>

lemma noNameNoEmail_rejected:
  "fst (createBooking bobId stamp noNameNoEmail freshStore) = Inl MissingRequiredInformation"
  by (simp add: createBooking_def noNameNoEmail_def)

lemma badEmailNoReason_rejected:
  "fst (createBooking bobId stamp badEmailNoReason freshStore) = Inl MissingRequiredInformation"
  by (simp add: createBooking_def badEmailNoReason_def)

lemma noNameNoEmail_fields: "data_name noNameNoEmail = [] \<and> data_email noNameNoEmail = []"
  by (simp add: noNameNoEmail_def)

lemma badEmailNoReason_fields:
  "data_name badEmailNoReason \<noteq> [] \<and> data_email badEmailNoReason \<noteq> [] \<and>
   CHR ''@'' \<notin> set (data_email badEmailNoReason) \<and> data_reason badEmailNoReason = []"
  by (simp add: badEmailNoReason_def)

lemma badEmail_fields:
  "data_name badEmail \<noteq> [] \<and> data_email badEmail \<noteq> [] \<and> data_reason badEmail \<noteq> [] \<and>
   CHR ''@'' \<notin> set (data_email badEmail)"
  by (simp add: badEmail_def)

lemma saturday_fields:
  "data_name saturday \<noteq> [] \<and> data_email saturday \<noteq> [] \<and> data_reason saturday \<noteq> [] \<and>
   CHR ''@'' \<in> set (data_email saturday)"
  by (simp add: saturday_def)

lemma saturday_unknown: "data_slotId saturday \<notin> slot_id ` set (slots freshStore)"
proof -
  have "find (\<lambda>sl. slot_id sl = ''2024-01-13-09:00'') (slots freshStore) = None"
    by (simp add: freshStore_slots timeGrid_def)
  then show ?thesis
    by (simp add: find_slot_None saturday_def)
qed

lemma monday_nine_generated: "''2024-01-08-09:00'' \<in> slot_id ` set (slots freshStore)"
  using monday_nine_found find_slot_None [of "''2024-01-08-09:00''" "slots freshStore"]
  by simp

lemma alice_valid: "validFor alice freshStore"
  using monday_nine_generated by (simp add: validFor_def alice_def)

lemma bob_valid: "validFor bob freshStore"
  using monday_nine_generated by (simp add: validFor_def bob_def)

lemma bob_valid_later: "validFor bob aliceBooked"
  using bob_valid by (simp add: validFor_slots [OF aliceBooked_slots])

lemma same_slot: "data_slotId bob = data_slotId alice"
  by (simp add: alice_def bob_def)

lemma freshStore_unbooked: "data_slotId alice \<notin> set (bookedSlotIds freshStore)"
  by (simp add: bookedSlotIds_def freshStore_empty)

lemma aliceBooked_booked: "data_slotId bob \<in> set (bookedSlotIds aliceBooked)"
  by (simp add: bookedSlotIds_def aliceBooked_bookings bob_def)

lemma aliceId_fresh: "aliceId \<notin> booking_id ` set (bookings freshStore)"
  by (simp add: freshStore_empty)

text \<open>
  Claim C3, as the code has it. \<^verbatim>\<open>createBooking\<close> fails fast, and the first failing check
  decides the error, but the first check is one test of three fields: an empty name, an
  empty email or an empty reason all give the one message \<^verbatim>\<open>Missing required information\<close>,
  so a submission with both name and email empty gets that combined message. Only when
  all three fields are filled in is the email looked at (no \<^verbatim>\<open>@\<close>: invalid email), then
  the slot id (not generated: invalid time slot), then the bookings (a booking of the
  slot that is not denied: already booked).
\<close>

theorem createBooking_validation_order:
  "(data_name d = [] \<or> data_email d = [] \<or> data_reason d = [] \<longrightarrow>
      fst (createBooking newId created d s) = Inl MissingRequiredInformation) \<and>
   (data_name d = [] \<and> data_email d = [] \<longrightarrow>
      fst (createBooking newId created d s) = Inl MissingRequiredInformation) \<and>
   (data_name d \<noteq> [] \<and> data_email d \<noteq> [] \<and> data_reason d \<noteq> [] \<and>
    CHR ''@'' \<notin> set (data_email d) \<longrightarrow>
      fst (createBooking newId created d s) = Inl InvalidEmailAddress) \<and>
   (data_name d \<noteq> [] \<and> data_email d \<noteq> [] \<and> data_reason d \<noteq> [] \<and>
    CHR ''@'' \<in> set (data_email d) \<and> data_slotId d \<notin> slot_id ` set (slots s) \<longrightarrow>
      fst (createBooking newId created d s) = Inl InvalidTimeSlot) \<and>
   (validFor d s \<and> data_slotId d \<in> set (bookedSlotIds s) \<longrightarrow>
      fst (createBooking newId created d s) = Inl TimeSlotAlreadyBooked) \<and>
   (validFor d s \<and> data_slotId d \<notin> set (bookedSlotIds s) \<longrightarrow>
      (\<exists>b. fst (createBooking newId created d s) = Inr b))"
  by (simp add: createBooking_cases validFor_def)

text \<open>One submission for each of the checks, and one that passes them all.\<close>

theorem createBooking_validation_order_witness:
  "data_name noNameNoEmail = [] \<and> data_email noNameNoEmail = [] \<and>
   fst (createBooking bobId stamp noNameNoEmail freshStore) = Inl MissingRequiredInformation \<and>
   CHR ''@'' \<notin> set (data_email badEmail) \<and>
   fst (createBooking bobId stamp badEmail freshStore) = Inl InvalidEmailAddress \<and>
   data_slotId saturday \<notin> slot_id ` set (slots freshStore) \<and>
   fst (createBooking bobId stamp saturday freshStore) = Inl InvalidTimeSlot \<and>
   validFor bob aliceBooked \<and> data_slotId bob \<in> set (bookedSlotIds aliceBooked) \<and>
   fst (createBooking bobId stamp bob aliceBooked) = Inl TimeSlotAlreadyBooked \<and>
   validFor bob freshStore \<and> data_slotId bob \<notin> set (bookedSlotIds freshStore) \<and>
   (\<exists>b. fst (createBooking bobId stamp bob freshStore) = Inr b)"
  using createBooking_validation_order [of noNameNoEmail bobId stamp freshStore]
    createBooking_validation_order [of badEmail bobId stamp freshStore]
    createBooking_validation_order [of saturday bobId stamp freshStore]
    createBooking_validation_order [of bob bobId stamp aliceBooked]
    createBooking_validation_order [of bob bobId stamp freshStore]
    noNameNoEmail_fields badEmail_fields saturday_fields saturday_unknown
    bob_valid bob_valid_later aliceBooked_booked freshStore_unbooked same_slot
  by metis

text \<open>
  The claim as stated fails on the code. With name and email both empty the error is the
  combined message, the same one that an empty email alone gets. And the test of the
  reason comes before the test for \<^verbatim>\<open>@\<close>: an email without \<^verbatim>\<open>@\<close> and an empty reason give the
  missing information error, not the invalid email error.
\<close>

theorem createBooking_combined_message:
  "fst (createBooking bobId stamp noNameNoEmail freshStore) = Inl MissingRequiredInformation \<and>
   fst (createBooking bobId stamp noEmail freshStore) = Inl MissingRequiredInformation \<and>
   error_message MissingRequiredInformation = ''Missing required information'' \<and>
   data_email badEmailNoReason \<noteq> [] \<and> CHR ''@'' \<notin> set (data_email badEmailNoReason) \<and>
   fst (createBooking bobId stamp badEmailNoReason freshStore) \<noteq> Inl InvalidEmailAddress"
  by (simp add: noNameNoEmail_rejected noEmail_rejected badEmailNoReason_rejected
      badEmailNoReason_fields)

section \<open>Deciding a booking\<close>

lemma setStatus_found:
  "find (\<lambda>b. booking_id b = i) bs = Some b \<Longrightarrow>
     find (\<lambda>b. booking_id b = i) (setStatus i st bs) = Some (b\<lparr>status := st\<rparr>)"
  by (induction bs) (auto split: if_splits)

lemma setStatus_others:
  "filter (\<lambda>b. booking_id b \<noteq> i) (setStatus i st bs) = filter (\<lambda>b. booking_id b \<noteq> i) bs"
  by (induction bs) auto

lemma setStatus_twice: "setStatus i st (setStatus i st bs) = setStatus i st bs"
  by (induction bs) auto

lemma find_booking_id: "find (\<lambda>b. booking_id b = i) bs = Some b \<Longrightarrow> booking_id b = i"
  by (induction bs) (auto split: if_splits)

text \<open>
  Claim C8. \<^verbatim>\<open>updateBookingStatus\<close> answers \<^verbatim>\<open>Booking not found\<close> exactly when no booking has
  the id. Otherwise it succeeds whatever the status of the booking was: the first booking
  with the id gets the target status, in the store and in the result, and the bookings
  with other ids stay as they were. Deciding the same way a second time succeeds again
  with the same result and leaves the store as the first call left it; so approving
  twice leaves the booking approved both times.
\<close>

theorem updateBookingStatus_overwrites:
  "(fst (updateBookingStatus i st s) = Inl BookingNotFound \<longleftrightarrow>
      i \<notin> booking_id ` set (bookings s)) \<and>
   (i \<in> booking_id ` set (bookings s) \<longrightarrow>
      (\<exists>b. fst (updateBookingStatus i st s) = Inr b \<and> booking_id b = i \<and>
           status b = decided st)) \<and>
   (\<forall>b. find (\<lambda>b. booking_id b = i) (bookings s) = Some b \<longrightarrow>
      fst (updateBookingStatus i st s) = Inr (b\<lparr>status := decided st\<rparr>) \<and>
      find (\<lambda>b. booking_id b = i) (bookings (snd (updateBookingStatus i st s))) =
        Some (b\<lparr>status := decided st\<rparr>) \<and>
      filter (\<lambda>b. booking_id b \<noteq> i) (bookings (snd (updateBookingStatus i st s))) =
        filter (\<lambda>b. booking_id b \<noteq> i) (bookings s) \<and>
      fst (updateBookingStatus i st (snd (updateBookingStatus i st s))) =
        Inr (b\<lparr>status := decided st\<rparr>) \<and>
      snd (updateBookingStatus i st (snd (updateBookingStatus i st s))) =
        snd (updateBookingStatus i st s))"
proof (cases "find (\<lambda>b. booking_id b = i) (bookings s)")
  case None
  then show ?thesis
    by (simp add: updateBookingStatus_def find_booking_None [symmetric])
next
  case (Some b)
  then have "i \<in> booking_id ` set (bookings s)"
    using find_booking_None [of i "bookings s"] by simp
  with Some find_booking_id [OF Some] show ?thesis
    by (simp add: updateBookingStatus_def setStatus_found setStatus_others setStatus_twice)
qed

lemma aliceBooked_has_alice:
  "find (\<lambda>b. booking_id b = aliceId) (bookings aliceBooked) =
     Some \<lparr>booking_id = aliceId, slotId = ''2024-01-08-09:00'', name = ''Alice'',
       email = ''alice@example.com'', reason = ''He said \"hi\"'', status = Pending,
       booking_date = ''2024-01-08'', booking_time = ''09:00'', createdAt = stamp\<rparr>"
  by (simp add: aliceBooked_bookings)

text \<open>Alice's pending booking, approved twice.\<close>

theorem updateBookingStatus_overwrites_witness:
  "aliceId \<in> booking_id ` set (bookings aliceBooked) \<and>
   fst (updateBookingStatus aliceId approved aliceBooked) =
     Inr \<lparr>booking_id = aliceId, slotId = ''2024-01-08-09:00'', name = ''Alice'',
       email = ''alice@example.com'', reason = ''He said \"hi\"'', status = Approved,
       booking_date = ''2024-01-08'', booking_time = ''09:00'', createdAt = stamp\<rparr> \<and>
   fst (updateBookingStatus aliceId approved
         (snd (updateBookingStatus aliceId approved aliceBooked))) =
     Inr \<lparr>booking_id = aliceId, slotId = ''2024-01-08-09:00'', name = ''Alice'',
       email = ''alice@example.com'', reason = ''He said \"hi\"'', status = Approved,
       booking_date = ''2024-01-08'', booking_time = ''09:00'', createdAt = stamp\<rparr>"
  using updateBookingStatus_overwrites [of aliceId approved aliceBooked] aliceBooked_has_alice
    find_booking_None [of aliceId "bookings aliceBooked"]
  by simp

section \<open>Conflicts\<close>

lemma setStatus_Approved_keeps:
  "x \<in> set (map slotId (filter (\<lambda>b. status b \<noteq> Denied) bs)) \<Longrightarrow>
     x \<in> set (map slotId (filter (\<lambda>b. status b \<noteq> Denied) (setStatus i Approved bs)))"
proof (induction bs)
  case Nil
  then show ?case by simp
next
  case (Cons b bs)
  show ?case
  proof (cases "booking_id b = i")
    case True
    have "map slotId (filter (\<lambda>b. status b \<noteq> Denied) (setStatus i Approved (b # bs))) =
        slotId b # map slotId (filter (\<lambda>b. status b \<noteq> Denied) bs)"
      using True by simp
    moreover have "x = slotId b \<or> x \<in> set (map slotId (filter (\<lambda>b. status b \<noteq> Denied) bs))"
      using Cons.prems by (simp split: if_splits)
    ultimately show ?thesis by simp
  next
    case False
    have "x = slotId b \<and> status b \<noteq> Denied \<or>
        x \<in> set (map slotId (filter (\<lambda>b. status b \<noteq> Denied) bs))"
      using Cons.prems by (simp split: if_splits)
    then show ?thesis
      using False Cons.IH by (simp split: if_splits) blast
  qed
qed

lemma approve_keeps_booked:
  "x \<in> set (bookedSlotIds s) \<Longrightarrow>
     x \<in> set (bookedSlotIds (snd (updateBookingStatus i approved s)))"
proof (cases "find (\<lambda>b. booking_id b = i) (bookings s)")
  case None
  assume "x \<in> set (bookedSlotIds s)"
  with None show ?thesis by (simp add: updateBookingStatus_def)
next
  case (Some b)
  assume "x \<in> set (bookedSlotIds s)"
  then have "x \<in> set (map slotId (filter (\<lambda>b. status b \<noteq> Denied)
      (setStatus i Approved (bookings s))))"
    unfolding bookedSlotIds_def by (rule setStatus_Approved_keeps)
  with Some show ?thesis by (simp add: updateBookingStatus_def bookedSlotIds_def)
qed

lemma setStatus_last:
  "i \<notin> booking_id ` set bs \<Longrightarrow> booking_id b = i \<Longrightarrow>
     setStatus i st (bs @ [b]) = bs @ [b\<lparr>status := st\<rparr>]"
  by (induction bs) auto

lemma find_last:
  "i \<notin> booking_id ` set bs \<Longrightarrow> booking_id b = i \<Longrightarrow>
     find (\<lambda>b. booking_id b = i) (bs @ [b]) = Some b"
  by (induction bs) auto

lemma deny_new_booking:
  "i \<notin> booking_id ` set (bookings s) \<Longrightarrow> booking_id b = i \<Longrightarrow>
     bookedSlotIds (snd (updateBookingStatus i denied (s\<lparr>bookings := bookings s @ [b]\<rparr>))) =
       bookedSlotIds s"
  by (simp add: updateBookingStatus_def find_last setStatus_last bookedSlotIds_def)

text \<open>
  Claim C4. A submission gets \<^verbatim>\<open>Time slot is already booked\<close> exactly when it passes the
  checks before the conflict check and a booking that is not denied has its slot id.
  For two valid submissions for a slot that no live booking has: the first succeeds, and
  the second is a conflict, also once the first has been approved; and when the first,
  booked under an id no earlier booking has, is denied, the second succeeds.
\<close>

theorem createBooking_conflict:
  "(fst (createBooking i c d s) = Inl TimeSlotAlreadyBooked \<longleftrightarrow>
      validFor d s \<and> data_slotId d \<in> set (bookedSlotIds s)) \<and>
   (validFor d s \<and> validFor d' s \<and> data_slotId d' = data_slotId d \<and>
    data_slotId d \<notin> set (bookedSlotIds s) \<longrightarrow>
      (\<exists>b. fst (createBooking i c d s) = Inr b) \<and>
      fst (createBooking i' c' d' (snd (createBooking i c d s))) = Inl TimeSlotAlreadyBooked \<and>
      fst (createBooking i' c' d'
            (snd (updateBookingStatus i approved (snd (createBooking i c d s))))) =
        Inl TimeSlotAlreadyBooked \<and>
      (i \<notin> booking_id ` set (bookings s) \<longrightarrow>
         (\<exists>b'. fst (createBooking i' c' d'
                  (snd (updateBookingStatus i denied (snd (createBooking i c d s))))) =
               Inr b')))"
proof -
  have iff: "fst (createBooking i c d s) = Inl TimeSlotAlreadyBooked \<longleftrightarrow>
      validFor d s \<and> data_slotId d \<in> set (bookedSlotIds s)" for i c d s
    by (simp add: createBooking_cases validFor_def)
  have ok: "validFor d s \<Longrightarrow> data_slotId d \<notin> set (bookedSlotIds s) \<Longrightarrow>
      \<exists>b. fst (createBooking i c d s) = Inr b" for i c d s
    by (simp add: createBooking_cases validFor_def)
  have seq: "(\<exists>b. fst (createBooking i c d s) = Inr b) \<and>
      fst (createBooking i' c' d' (snd (createBooking i c d s))) = Inl TimeSlotAlreadyBooked \<and>
      fst (createBooking i' c' d'
            (snd (updateBookingStatus i approved (snd (createBooking i c d s))))) =
        Inl TimeSlotAlreadyBooked \<and>
      (i \<notin> booking_id ` set (bookings s) \<longrightarrow>
         (\<exists>b'. fst (createBooking i' c' d'
                  (snd (updateBookingStatus i denied (snd (createBooking i c d s))))) =
               Inr b'))"
    if v: "validFor d s" and v': "validFor d' s" and same: "data_slotId d' = data_slotId d"
      and free: "data_slotId d \<notin> set (bookedSlotIds s)"
  proof -
    obtain b where cb: "createBooking i c d s = (Inr b, s\<lparr>bookings := bookings s @ [b]\<rparr>)"
      and bid: "booking_id b = i" and slot: "slotId b = data_slotId d"
      and pending: "status b = Pending"
      using createBooking_success [OF v free] by blast
    define s1 where "s1 = s\<lparr>bookings := bookings s @ [b]\<rparr>"
    have s1_slots: "slots s1 = slots s"
      by (simp add: s1_def)
    have booked1: "data_slotId d' \<in> set (bookedSlotIds s1)"
      by (simp add: s1_def bookedSlotIds_append pending slot same)
    have v1: "validFor d' s1"
      using v' by (simp add: validFor_slots [OF s1_slots])
    have second: "fst (createBooking i' c' d' s1) = Inl TimeSlotAlreadyBooked"
      using v1 booked1 by (simp add: iff)
    have v2: "validFor d' (snd (updateBookingStatus i approved s1))"
      using v1 by (simp add: validFor_slots [OF slots_updateBookingStatus])
    have third: "fst (createBooking i' c' d' (snd (updateBookingStatus i approved s1))) =
        Inl TimeSlotAlreadyBooked"
      using v2 approve_keeps_booked [OF booked1] by (simp add: iff)
    have fourth: "\<exists>b'. fst (createBooking i' c' d' (snd (updateBookingStatus i denied s1))) = Inr b'"
      if fresh: "i \<notin> booking_id ` set (bookings s)"
    proof -
      have "bookedSlotIds (snd (updateBookingStatus i denied s1)) = bookedSlotIds s"
        using deny_new_booking [OF fresh bid] by (simp add: s1_def)
      moreover have "validFor d' (snd (updateBookingStatus i denied s1))"
        using v1 by (simp add: validFor_slots [OF slots_updateBookingStatus])
      ultimately show ?thesis
        using ok [of d' "snd (updateBookingStatus i denied s1)" i' c'] free same by simp
    qed
    have first: "\<exists>b. fst (createBooking i c d s) = Inr b"
      using cb by simp
    have s1_eq: "snd (createBooking i c d s) = s1"
      using cb by (simp add: s1_def)
    show ?thesis
      unfolding s1_eq using first second third fourth by blast
  qed
  show ?thesis
    using iff [of i c d s] seq by blast
qed


text \<open>Alice and Bob ask for Monday 09:00 on the fresh store.\<close>

theorem createBooking_conflict_witness:
  "validFor alice freshStore \<and> validFor bob freshStore \<and>
   data_slotId bob = data_slotId alice \<and>
   data_slotId alice \<notin> set (bookedSlotIds freshStore) \<and>
   aliceId \<notin> booking_id ` set (bookings freshStore) \<and>
   (\<exists>b. fst (createBooking aliceId stamp alice freshStore) = Inr b) \<and>
   fst (createBooking bobId stamp bob (snd (createBooking aliceId stamp alice freshStore))) =
     Inl TimeSlotAlreadyBooked \<and>
   (\<exists>b'. fst (createBooking bobId stamp bob
            (snd (updateBookingStatus aliceId denied
               (snd (createBooking aliceId stamp alice freshStore))))) = Inr b')"
  using createBooking_conflict [of aliceId stamp alice freshStore bob bobId stamp]
    alice_valid bob_valid same_slot freshStore_unbooked aliceId_fresh
  by blast

section \<open>At most one live booking for a slot\<close>

text \<open>The operations that keep the slot ids of the live bookings distinct.\<close>

lemma createBooking_keeps_noDoubleBooking:
  "noDoubleBooking s \<Longrightarrow> noDoubleBooking (snd (createBooking newId created d s))"
  by (simp add: createBooking_cases noDoubleBooking_def bookedSlotIds_append)

lemma setStatus_Denied_subset:
  "set (map slotId (filter (\<lambda>b. status b \<noteq> Denied) (setStatus i Denied bs))) \<subseteq>
     set (map slotId (filter (\<lambda>b. status b \<noteq> Denied) bs))"
  by (induction bs) auto

lemma setStatus_Denied_distinct:
  "distinct (map slotId (filter (\<lambda>b. status b \<noteq> Denied) bs)) \<Longrightarrow>
     distinct (map slotId (filter (\<lambda>b. status b \<noteq> Denied) (setStatus i Denied bs)))"
proof (induction bs)
  case Nil
  then show ?case by simp
next
  case (Cons b bs)
  show ?case
  proof (cases "booking_id b = i")
    case True
    with Cons.prems show ?thesis by (simp split: if_splits)
  next
    case False
    with Cons setStatus_Denied_subset [of i bs] show ?thesis
      by (auto split: if_splits)
  qed
qed

lemma deny_keeps_noDoubleBooking:
  "noDoubleBooking s \<Longrightarrow> noDoubleBooking (snd (updateBookingStatus i denied s))"
  by (simp add: updateBookingStatus_def noDoubleBooking_def bookedSlotIds_def
      setStatus_Denied_distinct split: option.splits)

lemma approve_live_keeps:
  "find (\<lambda>b. booking_id b = i) bs = Some b \<Longrightarrow> status b \<noteq> Denied \<Longrightarrow>
     map slotId (filter (\<lambda>b. status b \<noteq> Denied) (setStatus i Approved bs)) =
     map slotId (filter (\<lambda>b. status b \<noteq> Denied) bs)"
  by (induction bs) (auto split: if_splits)

text \<open>Approving a booking that is pending or approved changes no live slot id.\<close>

lemma approve_live_keeps_noDoubleBooking:
  assumes "find (\<lambda>b. booking_id b = i) (bookings s) = Some b" and "status b \<noteq> Denied"
  shows "bookedSlotIds (snd (updateBookingStatus i approved s)) = bookedSlotIds s"
  using assms approve_live_keeps [OF assms]
  by (simp add: updateBookingStatus_def bookedSlotIds_def)

lemma rules_keep_noDoubleBooking:
  "noDoubleBooking (snd (setAvailability i c a s)) = noDoubleBooking s"
  "noDoubleBooking (snd (deleteAvailabilityRule i s)) = noDoubleBooking s"
  by (simp_all add: noDoubleBooking_def bookedSlotIds_def frame)

lemma aliceApproved_reachable: "reachable aliceApproved"
  unfolding aliceApproved_def bobBooked_def aliceDenied_def aliceBooked_def freshStore_def
  by (intro reachable.intros)

text \<open>
  Claim C1. The invariant holds of the fresh store and is kept by \<^verbatim>\<open>createBooking\<close>, by
  denying and by the rule operations, but approving is not guarded. In the run below
  Alice books Monday 09:00 and is denied, Bob books the freed slot, and Alice's denied
  booking is approved: every call succeeds, and the store that results, a reachable one,
  has two live bookings for the slot.
\<close>

theorem redecided_booking_doubles_slot:
  "reachable aliceApproved \<and>
   map status (bookings bobBooked) = [Denied, Pending] \<and> noDoubleBooking bobBooked \<and>
   fst (updateBookingStatus aliceId approved bobBooked) =
     Inr \<lparr>booking_id = aliceId, slotId = ''2024-01-08-09:00'', name = ''Alice'',
       email = ''alice@example.com'', reason = ''He said \"hi\"'', status = Approved,
       booking_date = ''2024-01-08'', booking_time = ''09:00'', createdAt = stamp\<rparr> \<and>
   map status (bookings aliceApproved) = [Approved, Pending] \<and>
   bookedSlotIds aliceApproved = [''2024-01-08-09:00'', ''2024-01-08-09:00''] \<and>
   \<not> noDoubleBooking aliceApproved"
  by (simp add: aliceApproved_reachable noDoubleBooking_def bookedSlotIds_def
      bobBooked_bookings aliceApproved_bookings updateBookingStatus_def)

section \<open>The slot grid\<close>

lemma generated_slot_shape:
  assumes "slot \<in> set (generateWeeklySlots rt)"
  shows "slot_time slot \<in> set timeGrid \<and>
    slot_id slot = slot_date slot @ ''-'' @ slot_time slot \<and> available slot"
  using assms by (auto simp: generateWeeklySlots_days newSlot_def)

lemma generated_slot_date:
  assumes "slot \<in> set (generateWeeklySlots rt)"
  shows "\<exists>day<5. slot_date slot = toISODate (getStartOfWeek rt + int day * msPerDay)"
  using assms by (auto simp: generateWeeklySlots_days newSlot_def)

lemma timeGrid_length: "length timeGrid = 16"
  by (simp add: timeGrid_def)

lemma generated_times: "map slot_time (generateWeeklySlots rt) = concat (replicate 5 timeGrid)"
  by (simp add: generateWeeklySlots_days map_concat comp_def newSlot_def upt_rec
      eval_nat_numeral)

lemma generated_dates:
  "map slot_date (generateWeeklySlots rt) =
     concat (map (replicate 16)
       (map (\<lambda>day. toISODate (getStartOfWeek rt + int day * msPerDay)) [0..<5]))"
  by (simp add: generateWeeklySlots_days map_concat comp_def newSlot_def map_replicate_const
      timeGrid_length)

text \<open>
  The order: the times of a day ascend as strings, and the five dates are the UTC dates
  of instants one day apart, so that their day numbers are consecutive.
\<close>

lemma timeGrid_sorted: "sorted_wrt (<) timeGrid"
  by (simp add: timeGrid_def less_char_def)

lemma day_steps:
  "dayNumber (t + (k + 1) * msPerDay) = dayNumber (t + k * msPerDay) + 1"
  by (simp add: dayNumber_def msPerDay_def algebra_simps)

text \<open>
  In local time the five days are Monday to Friday, whatever the clock and the zone; the
  dates of the slots are the UTC dates of the same instants, which are the local dates
  when the zone is UTC.
\<close>

lemma getDay_shift: "getDay z (t + k * msPerDay) = (getDay z t + k) mod 7"
proof -
  have "(t + k * msPerDay + z * 60000) div msPerDay = (t + z * 60000) div msPerDay + k"
    by (simp add: msPerDay_def algebra_simps)
  then show ?thesis
    by (simp add: getDay_def weekDay_def dayNumber_def localTime_def algebra_simps mod_simps)
qed

lemma start_is_local_monday: "getDay (zone rt) (getStartOfWeek rt) = 1"
proof -
  let ?d = "getDay (zone rt) (now rt)"
  have "getDay (zone rt) (getStartOfWeek rt) = (?d + ((if ?d = 0 then - 6 else 1) - ?d)) mod 7"
    by (simp only: getStartOfWeek_shift getDay_shift)
  then show ?thesis by simp
qed

lemma local_weekdays:
  "day < 5 \<Longrightarrow> getDay (zone rt) (getStartOfWeek rt + int day * msPerDay) = int day + 1"
  by (simp add: getDay_shift start_is_local_monday)

lemma utc_weekdays:
  "zone rt = 0 \<Longrightarrow> day < 5 \<Longrightarrow>
     weekDay (dayNumber (getStartOfWeek rt + int day * msPerDay)) = int day + 1"
  using local_weekdays [of day rt] by (simp add: getDay_def localTime_def)

lemma mondayNightIndia_dates:
  "map (\<lambda>day. toISODate (getStartOfWeek mondayNightIndia + int day * msPerDay)) [0..<5] =
     [''2024-01-07'', ''2024-01-08'', ''2024-01-09'', ''2024-01-10'', ''2024-01-11'']"
  apply (simp add: start_mondayNightIndia upt_rec)
  apply (simp add: date_eval)
  done

lemma mondayNightIndia_is_monday: "getDay (zone mondayNightIndia) (now mondayNightIndia) = 1"
  by (simp add: mondayNightIndia_def date_eval)

lemma mondayNightIndia_first_slot:
  "slot_date (hd (generateWeeklySlots mondayNightIndia)) =
     toISODate (getStartOfWeek mondayNightIndia)"
  by (simp add: generateWeeklySlots_days upt_rec newSlot_def timeGrid_def)

lemma mondayNightIndia_first_date:
  "toISODate (getStartOfWeek mondayNightIndia) = ''2024-01-07''"
  by (simp add: start_mondayNightIndia date_eval)

lemma mondayNightIndia_sunday: "weekDay (dayNumber (getStartOfWeek mondayNightIndia)) = 0"
  by (simp add: start_mondayNightIndia date_eval)

text \<open>
  Claim C6. The times of day, the ids and the order are as claimed for every clock and
  zone (the lemmas above), and the days are Monday to Friday of the local week. The
  dates are printed in UTC, though. In a browser five and a half hours ahead of UTC, on
  a Monday at 02:00, the week starts at an instant that is still Sunday in UTC: the first
  sixteen slots carry the date 2024-01-07, a Sunday, and the week runs to Thursday.
\<close>

theorem generateWeeklySlots_sunday:
  "getDay (zone mondayNightIndia) (now mondayNightIndia) = 1 \<and>
   slot_date (hd (generateWeeklySlots mondayNightIndia)) =
     toISODate (getStartOfWeek mondayNightIndia) \<and>
   toISODate (getStartOfWeek mondayNightIndia) = ''2024-01-07'' \<and>
   weekDay (dayNumber (getStartOfWeek mondayNightIndia)) = 0 \<and>
   map slot_date (generateWeeklySlots mondayNightIndia) =
     concat (map (replicate 16)
       [''2024-01-07'', ''2024-01-08'', ''2024-01-09'', ''2024-01-10'', ''2024-01-11''])"
  by (simp only: mondayNightIndia_is_monday mondayNightIndia_first_slot
      mondayNightIndia_first_date mondayNightIndia_sunday generated_dates
      mondayNightIndia_dates simp_thms)

section \<open>The CSV export\<close>

lemma escaped_length:
  "length f \<le> length (concat (map (\<lambda>c. if c = CHR 0x22 then [c, c] else [c]) f))"
  by (induction f) auto

lemma escaped_same:
  "concat (map (\<lambda>c. if c = CHR 0x22 then [c, c] else [c]) f) = f \<longleftrightarrow> CHR 0x22 \<notin> set f"
proof (induction f)
  case Nil
  then show ?case by simp
next
  case (Cons c f)
  show ?case
  proof (cases "c = CHR 0x22")
    case True
    have "c # concat (map (\<lambda>c. if c = CHR 0x22 then [c, c] else [c]) f) \<noteq> f"
      using escaped_length [of f]
      by (metis impossible_Cons)
    with True show ?thesis by simp
  next
    case False
    with Cons show ?thesis by simp
  qed
qed

text \<open>The export quotes a field by the standard rule exactly when it has no double quote.\<close>

lemma quoted_standard: "quoted f = csvEscaped f \<longleftrightarrow> CHR 0x22 \<notin> set f"
  using escaped_same [of f] by (auto simp: quoted_def csvEscaped_def)

text \<open>
  Claim C2. \<^verbatim>\<open>exportBookingsCSV\<close> puts every field between double quotes and leaves the
  double quotes inside a field as they are. Alice's booking, whose reason is
  \<^verbatim>\<open>He said "hi"\<close>, makes the row below: the reason field is \<^verbatim>\<open>"He said "hi""\<close>, not the
  \<^verbatim>\<open>"He said ""hi"""\<close> of the standard rule.
\<close>

theorem exportBookingsCSV_unescaped_quotes:
  "fst (exportBookingsCSV toLocaleString aliceBooked) =
     ''\"ID\",\"Name\",\"Email\",\"Date\",\"Time\",\"Reason\",\"Status\",\"Created At\"'' @
     [CHR 0x0A] @
     ''\"booking-1704704400000-k3x9q2m1a\",\"Alice\",\"alice@example.com\",'' @
     ''\"2024-01-08\",\"09:00\",'' @
     ''\"He said \"hi\"\"'' @ '',\"pending\",\"'' @ toLocaleString stamp @ ''\"'' \<and>
   reason (hd (bookings aliceBooked)) = ''He said \"hi\"'' \<and>
   quoted ''He said \"hi\"'' = ''\"He said \"hi\"\"'' \<and>
   csvEscaped ''He said \"hi\"'' = ''\"He said \"\"hi\"\"\"'' \<and>
   quoted ''He said \"hi\"'' \<noteq> csvEscaped ''He said \"hi\"''"
  by (simp add: exportBookingsCSV_def headers_def bookingRow_def quoted_def csvEscaped_def
      aliceBooked_bookings aliceId_def)

section \<open>Availability\<close>

lemma reported_recomputed:
  "map available (filter (\<lambda>slot. slot_id slot = sid)
      (map (\<lambda>slot. slot\<lparr>available := c (slot_id slot)\<rparr>) ss)) =
     map (\<lambda>slot. c sid) (filter (\<lambda>slot. slot_id slot = sid) ss)"
  by (induction ss) auto

lemma reported_getAvailableSlots:
  "reported sid (fst (getAvailableSlots s)) =
     map (\<lambda>slot. sid \<notin> set (bookedSlotIds s) \<and> sid \<notin> blockedSlotIds s)
       (filter (\<lambda>slot. slot_id slot = sid) (slots s))"
  unfolding reported_def getAvailableSlots_def fst_conv
  by (rule reported_recomputed [of sid "\<lambda>i. i \<notin> set (bookedSlotIds s) \<and> i \<notin> blockedSlotIds s"])

lemma reported_set:
  "set (reported sid (fst (getAvailableSlots s))) = {v} \<longleftrightarrow>
     sid \<in> slot_id ` set (slots s) \<and> v = (sid \<notin> set (bookedSlotIds s) \<and> sid \<notin> blockedSlotIds s)"
proof -
  have "filter (\<lambda>slot. slot_id slot = sid) (slots s) \<noteq> [] \<longleftrightarrow> sid \<in> slot_id ` set (slots s)"
    by (auto simp: filter_empty_conv)
  then show ?thesis
    by (cases "filter (\<lambda>slot. slot_id slot = sid) (slots s)")
       (auto simp: reported_getAvailableSlots)
qed

lemma booked_iff:
  "i \<in> set (bookedSlotIds s) \<longleftrightarrow> (\<exists>b\<in>set (bookings s). status b \<noteq> Denied \<and> slotId b = i)"
  by (auto simp: bookedSlotIds_def)

lemma blocked_iff:
  "i \<in> blockedSlotIds s \<longleftrightarrow>
     (\<exists>r\<in>set (availabilityRules s). isBlocked r \<and>
        (\<exists>t\<in>set (timeSlots r). rule_date r @ ''-'' @ t = i))"
  by (auto simp: blockedSlotIds_def ruleSlotIds_def)

lemma slot_id_parts:
  "length t = length t' \<Longrightarrow> d @ ''-'' @ t = d' @ ''-'' @ t' \<longleftrightarrow> d = d' \<and> t = t'"
  by simp

lemma timeGrid_five: "t \<in> set timeGrid \<Longrightarrow> length t = 5"
  by (auto simp: timeGrid_def)

lemma reachable_generated: "reachable s \<Longrightarrow> \<exists>rt. slots s = generateWeeklySlots rt"
  by (induction rule: reachable.induct) (auto simp: frame newAppointmentService_def)

lemma blocked_setAvailability:
  "blockedSlotIds (snd (setAvailability i c a s)) =
     blockedSlotIds (s\<lparr>availabilityRules :=
        filter (\<lambda>r. rule_date r \<noteq> data_date a) (availabilityRules s)\<rparr>) \<union>
     (if data_isBlocked a then set (map (\<lambda>t. data_date a @ ''-'' @ t) (data_timeSlots a)) else {})"
  by (simp add: blockedSlotIds_def setAvailability_def Let_def ruleSlotIds_def)

lemma blocked_filter_subset:
  "blockedSlotIds (s\<lparr>availabilityRules := filter P (availabilityRules s)\<rparr>) \<subseteq> blockedSlotIds s"
  by (auto simp: blockedSlotIds_def)

lemma blocked_filter_same:
  assumes "\<not> (\<exists>r\<in>set (availabilityRules s). isBlocked r \<and> rule_date r = d)"
  shows "blockedSlotIds (s\<lparr>availabilityRules :=
      filter (\<lambda>r. rule_date r \<noteq> d) (availabilityRules s)\<rparr>) = blockedSlotIds s"
proof -
  have "filter isBlocked (filter (\<lambda>r. rule_date r \<noteq> d) (availabilityRules s)) =
      filter isBlocked (availabilityRules s)"
    using assms by (auto intro: filter_cong)
  then show ?thesis by (simp add: blockedSlotIds_def)
qed

lemma spliceRule_last:
  "i \<notin> rule_id ` set rs \<Longrightarrow> rule_id r = i \<Longrightarrow> spliceRule i (rs @ [r]) = rs"
  by (induction rs) auto

lemma find_rule_last:
  "i \<notin> rule_id ` set rs \<Longrightarrow> rule_id r = i \<Longrightarrow>
     find (\<lambda>rule. rule_id rule = i) (rs @ [r]) = Some r"
  by (induction rs) auto

lemma delete_new_rule:
  assumes "i \<notin> rule_id ` set (availabilityRules s)"
  shows "deleteAvailabilityRule i (snd (setAvailability i c a s)) =
    (Inr (), s\<lparr>availabilityRules :=
        filter (\<lambda>r. rule_date r \<noteq> data_date a) (availabilityRules s)\<rparr>)"
proof -
  have fresh: "i \<notin> rule_id ` set (filter (\<lambda>r. rule_date r \<noteq> data_date a) (availabilityRules s))"
    using assms by auto
  show ?thesis
    by (simp add: deleteAvailabilityRule_def setAvailability_def Let_def
        find_rule_last [OF fresh] spliceRule_last [OF fresh])
qed

lemma bookedSlotIds_rules [simp]:
  "bookedSlotIds (s\<lparr>availabilityRules := rs\<rparr>) = bookedSlotIds s"
  by (simp add: bookedSlotIds_def)

subsection \<open>The stores with a blocking rule\<close>

lemma nineBlocked_rules:
  "availabilityRules nineBlocked =
     [\<lparr>rule_id = otherRuleId, rule_date = ''2024-01-08'', timeSlots = [''09:00''],
       isBlocked = True, rule_reason = None, rule_createdAt = stamp\<rparr>]"
  by (simp add: nineBlocked_def setAvailability_def Let_def blockNine_def freshStore_empty)

lemma yearBlocked_rules:
  "availabilityRules yearBlocked =
     [\<lparr>rule_id = otherRuleId, rule_date = ''2024'', timeSlots = [''01-08-09:00''],
       isBlocked = True, rule_reason = None, rule_createdAt = stamp\<rparr>]"
  by (simp add: yearBlocked_def setAvailability_def Let_def blockYear_def freshStore_empty)

lemma blocked_stores_frame:
  "slots nineBlocked = slots freshStore" "bookings nineBlocked = []"
  "slots yearBlocked = slots freshStore" "bookings yearBlocked = []"
  by (simp_all add: nineBlocked_def yearBlocked_def frame freshStore_empty)

lemma blocked_stores_reachable: "reachable nineBlocked" "reachable yearBlocked"
  unfolding nineBlocked_def yearBlocked_def freshStore_def
  by (intro reachable.intros)+

lemma freshStore_first:
  "slots freshStore ! 0 =
     \<lparr>slot_id = ''2024-01-08-09:00'', slot_date = ''2024-01-08'', slot_time = ''09:00'',
       available = True\<rparr>"
  "length (slots freshStore) = 80"
  by (simp_all add: freshStore_slots timeGrid_def)

lemma first_available:
  "slots s \<noteq> [] \<Longrightarrow>
     available (fst (getAvailableSlots s) ! 0) =
       (slot_id (slots s ! 0) \<notin> set (bookedSlotIds s) \<and> slot_id (slots s ! 0) \<notin> blockedSlotIds s)"
  by (simp add: getAvailableSlots_def)

lemma nineBlocked_blocked: "blockedSlotIds nineBlocked = {''2024-01-08-09:00''}"
  by (simp add: blockedSlotIds_def ruleSlotIds_def nineBlocked_rules)

lemma yearBlocked_blocked: "blockedSlotIds yearBlocked = {''2024-01-08-09:00''}"
  by (simp add: blockedSlotIds_def ruleSlotIds_def yearBlocked_rules)

lemma blocked_stores_unbooked: "bookedSlotIds nineBlocked = []" "bookedSlotIds yearBlocked = []"
  by (simp_all add: bookedSlotIds_def blocked_stores_frame)

text \<open>
  Claim C5, as the code has it. On every reachable store \<^verbatim>\<open>getAvailableSlots\<close> leaves the
  store as it is and returns every generated slot, in order, with its id, date and time.
  A slot comes back unavailable exactly when its own flag is off (no generated slot has
  it off), or a booking that is not denied has its id, or a blocking rule has a time
  that, put after the date of the rule and a hyphen, spells its id. When the times of
  the blocking rules have five characters, as the times of the grid have, that last case
  is: a blocking rule for the date of the slot lists the time of the slot.
\<close>

theorem getAvailableSlots_recomputes:
  assumes "reachable s"
  shows "snd (getAvailableSlots s) = s \<and>
    map slot_id (fst (getAvailableSlots s)) = map slot_id (slots s) \<and>
    map slot_date (fst (getAvailableSlots s)) = map slot_date (slots s) \<and>
    map slot_time (fst (getAvailableSlots s)) = map slot_time (slots s) \<and>
    (\<forall>i<length (slots s).
       (\<not> available (fst (getAvailableSlots s) ! i)) =
       (\<not> available (slots s ! i) \<or>
        (\<exists>b\<in>set (bookings s). status b \<noteq> Denied \<and> slotId b = slot_id (slots s ! i)) \<or>
        (\<exists>r\<in>set (availabilityRules s). isBlocked r \<and>
           (\<exists>t\<in>set (timeSlots r). rule_date r @ ''-'' @ t = slot_id (slots s ! i))))) \<and>
    ((\<forall>r\<in>set (availabilityRules s). \<forall>t\<in>set (timeSlots r). isBlocked r \<longrightarrow> length t = 5) \<longrightarrow>
     (\<forall>i<length (slots s).
       (\<not> available (fst (getAvailableSlots s) ! i)) =
       (\<not> available (slots s ! i) \<or>
        (\<exists>b\<in>set (bookings s). status b \<noteq> Denied \<and> slotId b = slot_id (slots s ! i)) \<or>
        (\<exists>r\<in>set (availabilityRules s). isBlocked r \<and> rule_date r = slot_date (slots s ! i) \<and>
           slot_time (slots s ! i) \<in> set (timeSlots r)))))"
proof -
  obtain rt where rt: "slots s = generateWeeklySlots rt"
    using reachable_generated [OF assms] by blast
  have frame: "snd (getAvailableSlots s) = s"
    "map slot_id (fst (getAvailableSlots s)) = map slot_id (slots s)"
    "map slot_date (fst (getAvailableSlots s)) = map slot_date (slots s)"
    "map slot_time (fst (getAvailableSlots s)) = map slot_time (slots s)"
    by (simp_all add: getAvailableSlots_def comp_def)
  have flag: "(\<not> available (fst (getAvailableSlots s) ! i)) =
      (\<not> available (slots s ! i) \<or>
        (\<exists>b\<in>set (bookings s). status b \<noteq> Denied \<and> slotId b = slot_id (slots s ! i)) \<or>
        (\<exists>r\<in>set (availabilityRules s). isBlocked r \<and>
           (\<exists>t\<in>set (timeSlots r). rule_date r @ ''-'' @ t = slot_id (slots s ! i))))"
    if i: "i < length (slots s)" for i
  proof -
    have "slots s ! i \<in> set (generateWeeklySlots rt)"
      using i rt by (metis nth_mem)
    then have "available (slots s ! i)"
      using generated_slot_shape by blast
    moreover have "available (fst (getAvailableSlots s) ! i) =
        (slot_id (slots s ! i) \<notin> set (bookedSlotIds s) \<and> slot_id (slots s ! i) \<notin> blockedSlotIds s)"
      using i by (simp add: getAvailableSlots_def)
    ultimately show ?thesis
      by (simp add: booked_iff blocked_iff)
  qed
  have canonical: "(\<exists>r\<in>set (availabilityRules s). isBlocked r \<and>
           (\<exists>t\<in>set (timeSlots r). rule_date r @ ''-'' @ t = slot_id (slots s ! i))) =
      (\<exists>r\<in>set (availabilityRules s). isBlocked r \<and> rule_date r = slot_date (slots s ! i) \<and>
           slot_time (slots s ! i) \<in> set (timeSlots r))"
    if i: "i < length (slots s)"
      and five: "\<forall>r\<in>set (availabilityRules s). \<forall>t\<in>set (timeSlots r). isBlocked r \<longrightarrow> length t = 5"
    for i
  proof -
    have "slots s ! i \<in> set (generateWeeklySlots rt)"
      using i rt by (metis nth_mem)
    then have shape: "slot_id (slots s ! i) = slot_date (slots s ! i) @ ''-'' @ slot_time (slots s ! i)"
      and len: "length (slot_time (slots s ! i)) = 5"
      using generated_slot_shape timeGrid_five by blast+
    have "rule_date r @ ''-'' @ t = slot_id (slots s ! i) \<longleftrightarrow>
        rule_date r = slot_date (slots s ! i) \<and> t = slot_time (slots s ! i)"
      if "r \<in> set (availabilityRules s)" "isBlocked r" "t \<in> set (timeSlots r)" for r t
    proof -
      have "length t = length (slot_time (slots s ! i))"
        using five that len by simp
      then show ?thesis
        unfolding shape by (rule slot_id_parts)
    qed
    then show ?thesis by blast
  qed
  show ?thesis
    using frame flag canonical by simp
qed

lemma nineBlocked_canonical:
  "\<forall>r\<in>set (availabilityRules nineBlocked). \<forall>t\<in>set (timeSlots r). isBlocked r \<longrightarrow> length t = 5"
  by (simp add: nineBlocked_rules)

lemma nineBlocked_rule:
  "\<exists>r\<in>set (availabilityRules nineBlocked). isBlocked r \<and> rule_date r = ''2024-01-08'' \<and>
     ''09:00'' \<in> set (timeSlots r)"
  by (simp add: nineBlocked_rules)

lemma nineBlocked_first:
  "length (slots nineBlocked) = 80" "slot_date (slots nineBlocked ! 0) = ''2024-01-08''"
  "slot_time (slots nineBlocked ! 0) = ''09:00''"
  by (simp_all add: blocked_stores_frame freshStore_first)

text \<open>The store with Monday 09:00 blocked: its first slot is reported unavailable.\<close>

theorem getAvailableSlots_recomputes_witness:
  "reachable nineBlocked \<and> length (slots nineBlocked) = 80 \<and>
   map timeSlots (availabilityRules nineBlocked) = [[''09:00'']] \<and>
   slot_date (slots nineBlocked ! 0) = ''2024-01-08'' \<and>
   slot_time (slots nineBlocked ! 0) = ''09:00'' \<and>
   snd (getAvailableSlots nineBlocked) = nineBlocked \<and>
   \<not> available (fst (getAvailableSlots nineBlocked) ! 0)"
proof -
  note recomputed = getAvailableSlots_recomputes [OF blocked_stores_reachable(1)]
  from recomputed have "snd (getAvailableSlots nineBlocked) = nineBlocked"
    by blast
  moreover from recomputed nineBlocked_canonical have
    "\<forall>i<length (slots nineBlocked).
       (\<not> available (fst (getAvailableSlots nineBlocked) ! i)) =
       (\<not> available (slots nineBlocked ! i) \<or>
        (\<exists>b\<in>set (bookings nineBlocked). status b \<noteq> Denied \<and>
            slotId b = slot_id (slots nineBlocked ! i)) \<or>
        (\<exists>r\<in>set (availabilityRules nineBlocked). isBlocked r \<and>
            rule_date r = slot_date (slots nineBlocked ! i) \<and>
            slot_time (slots nineBlocked ! i) \<in> set (timeSlots r)))"
    by blast
  then have "\<not> available (fst (getAvailableSlots nineBlocked) ! 0)"
    using nineBlocked_first nineBlocked_rule by simp
  ultimately show ?thesis
    using blocked_stores_reachable(1) nineBlocked_first by (simp add: nineBlocked_rules)
qed

lemma yearBlocked_first_unavailable: "\<not> available (fst (getAvailableSlots yearBlocked) ! 0)"
proof -
  have "slots yearBlocked \<noteq> []"
    using freshStore_first(2) by (auto simp: blocked_stores_frame)
  then show ?thesis
    by (simp add: first_available blocked_stores_frame freshStore_first yearBlocked_blocked)
qed

text \<open>
  The claim as stated fails on a reachable store. \<^verbatim>\<open>setAvailability\<close> takes any strings;
  after a blocking rule with the date \<^verbatim>\<open>2024\<close> and the time \<^verbatim>\<open>01-08-09:00\<close>, the slot of Monday
  2024-01-08 at 09:00 is reported unavailable, with no booking at all and no rule for
  its date.
\<close>

theorem year_rule_blocks_monday:
  "reachable yearBlocked \<and> bookings yearBlocked = [] \<and>
   map rule_date (availabilityRules yearBlocked) = [''2024''] \<and>
   slots yearBlocked ! 0 =
     \<lparr>slot_id = ''2024-01-08-09:00'', slot_date = ''2024-01-08'', slot_time = ''09:00'',
       available = True\<rparr> \<and>
   \<not> available (fst (getAvailableSlots yearBlocked) ! 0) \<and>
   \<not> (\<forall>s. reachable s \<longrightarrow>
        (\<forall>i<length (slots s).
           (\<not> available (fst (getAvailableSlots s) ! i)) =
           (\<not> available (slots s ! i) \<or>
            (\<exists>b\<in>set (bookings s). status b \<noteq> Denied \<and> slotId b = slot_id (slots s ! i)) \<or>
            (\<exists>r\<in>set (availabilityRules s). isBlocked r \<and>
               rule_date r = slot_date (slots s ! i) \<and>
               slot_time (slots s ! i) \<in> set (timeSlots r)))))"
proof -
  have facts: "reachable yearBlocked" "bookings yearBlocked = []"
    "map rule_date (availabilityRules yearBlocked) = [''2024'']"
    "slots yearBlocked ! 0 =
     \<lparr>slot_id = ''2024-01-08-09:00'', slot_date = ''2024-01-08'', slot_time = ''09:00'',
       available = True\<rparr>"
    "length (slots yearBlocked) = 80"
    by (simp_all add: blocked_stores_reachable blocked_stores_frame yearBlocked_rules
        freshStore_first)
  have "\<not> (\<not> available (fst (getAvailableSlots yearBlocked) ! 0)) =
           (\<not> available (slots yearBlocked ! 0) \<or>
            (\<exists>b\<in>set (bookings yearBlocked). status b \<noteq> Denied \<and>
                slotId b = slot_id (slots yearBlocked ! 0)) \<or>
            (\<exists>r\<in>set (availabilityRules yearBlocked). isBlocked r \<and>
               rule_date r = slot_date (slots yearBlocked ! 0) \<and>
               slot_time (slots yearBlocked ! 0) \<in> set (timeSlots r)))"
    using yearBlocked_first_unavailable by (simp add: facts yearBlocked_rules)
  moreover have "0 < length (slots yearBlocked)"
    by (simp add: facts)
  ultimately have "\<not> (\<forall>s. reachable s \<longrightarrow>
        (\<forall>i<length (slots s).
           (\<not> available (fst (getAvailableSlots s) ! i)) =
           (\<not> available (slots s ! i) \<or>
            (\<exists>b\<in>set (bookings s). status b \<noteq> Denied \<and> slotId b = slot_id (slots s ! i)) \<or>
            (\<exists>r\<in>set (availabilityRules s). isBlocked r \<and>
               rule_date r = slot_date (slots s ! i) \<and>
               slot_time (slots s ! i) \<in> set (timeSlots r)))))"
    using facts(1) by blast
  with facts yearBlocked_first_unavailable show ?thesis by simp
qed

section \<open>Availability rules\<close>

text \<open>
  Claim C7, as the code has it. Take a slot that is reported available, and a rule id
  that no rule of the store has. After \<^verbatim>\<open>setAvailability\<close> blocks the time of the slot on
  its date, the slot is reported unavailable; deleting the new rule by its id succeeds
  and the slot is reported available again. What the deletion leaves is the rules of
  the store less those for the date: a rule that \<^verbatim>\<open>setAvailability\<close> replaced stays away.
\<close>

theorem block_then_delete:
  assumes fresh: "newId \<notin> rule_id ` set (availabilityRules s)"
    and before: "set (reported (D @ ''-'' @ T) (fst (getAvailableSlots s))) = {True}"
  shows
    "set (reported (D @ ''-'' @ T) (fst (getAvailableSlots
        (snd (setAvailability newId created
           \<lparr>data_date = D, data_timeSlots = [T], data_isBlocked = True,
            data_rule_reason = why\<rparr> s))))) = {False} \<and>
     fst (deleteAvailabilityRule newId
        (snd (setAvailability newId created
           \<lparr>data_date = D, data_timeSlots = [T], data_isBlocked = True,
            data_rule_reason = why\<rparr> s))) = Inr () \<and>
     availabilityRules (snd (deleteAvailabilityRule newId
        (snd (setAvailability newId created
           \<lparr>data_date = D, data_timeSlots = [T], data_isBlocked = True,
            data_rule_reason = why\<rparr> s)))) =
       filter (\<lambda>r. rule_date r \<noteq> D) (availabilityRules s) \<and>
     set (reported (D @ ''-'' @ T) (fst (getAvailableSlots
        (snd (deleteAvailabilityRule newId
           (snd (setAvailability newId created
              \<lparr>data_date = D, data_timeSlots = [T], data_isBlocked = True,
               data_rule_reason = why\<rparr> s))))))) = {True}"
proof -
  let ?a = "\<lparr>data_date = D, data_timeSlots = [T], data_isBlocked = True,
    data_rule_reason = why\<rparr>"
  let ?sid = "D @ ''-'' @ T"
  let ?s1 = "snd (setAvailability newId created ?a s)"
  let ?s0 = "s\<lparr>availabilityRules := filter (\<lambda>r. rule_date r \<noteq> D) (availabilityRules s)\<rparr>"
  from before have slot: "?sid \<in> slot_id ` set (slots s)"
    and unbooked: "?sid \<notin> set (bookedSlotIds s)" and unblocked: "?sid \<notin> blockedSlotIds s"
    by (simp_all add: reported_set)
  have "?sid \<in> blockedSlotIds ?s1"
    by (simp add: blocked_setAvailability)
  then have blocked: "set (reported ?sid (fst (getAvailableSlots ?s1))) = {False}"
    using slot by (simp add: reported_set frame)
  have del: "deleteAvailabilityRule newId ?s1 = (Inr (), ?s0)"
    using delete_new_rule [OF fresh, of created ?a] by simp
  have "?sid \<notin> blockedSlotIds ?s0"
    using unblocked blocked_filter_subset [of "\<lambda>r. rule_date r \<noteq> D" s] by blast
  then have again: "set (reported ?sid (fst (getAvailableSlots ?s0))) = {True}"
    using slot unbooked by (simp add: reported_set)
  show ?thesis
    using blocked again by (simp add: del)
qed

lemma freshStore_monday_nine:
  "set (reported (''2024-01-08'' @ ''-'' @ ''09:00'') (fst (getAvailableSlots freshStore))) = {True}"
  by (simp add: reported_getAvailableSlots monday_nine_only bookedSlotIds_def blockedSlotIds_def
      freshStore_empty)

lemma ruleId_fresh: "ruleId \<notin> rule_id ` set (availabilityRules freshStore)"
  by (simp add: freshStore_empty)

text \<open>Monday 09:00 on the fresh store.\<close>

theorem block_then_delete_witness:
  "ruleId \<notin> rule_id ` set (availabilityRules freshStore) \<and>
   set (reported ''2024-01-08-09:00'' (fst (getAvailableSlots freshStore))) = {True} \<and>
   set (reported ''2024-01-08-09:00'' (fst (getAvailableSlots
      (snd (setAvailability ruleId stamp blockNine freshStore))))) = {False} \<and>
   set (reported ''2024-01-08-09:00'' (fst (getAvailableSlots (blockThenDelete freshStore)))) =
     {True}"
  using block_then_delete [OF ruleId_fresh freshStore_monday_nine, of stamp None]
    ruleId_fresh freshStore_monday_nine
  by (simp add: blockNine_def blockThenDelete_def)

lemma ruleId_other: "ruleId \<noteq> otherRuleId"
  by (simp add: ruleId_def otherRuleId_def)

lemma nineBlocked_round_trip:
  "deleteAvailabilityRule ruleId (snd (setAvailability ruleId stamp blockNine nineBlocked)) =
     (Inr (), nineBlocked\<lparr>availabilityRules := []\<rparr>)"
proof -
  have "ruleId \<notin> rule_id ` set (availabilityRules nineBlocked)"
    using ruleId_other by (simp add: nineBlocked_rules)
  from delete_new_rule [OF this, of stamp blockNine] show ?thesis
    by (simp add: nineBlocked_rules blockNine_def)
qed

lemma yearBlocked_round_trip:
  "deleteAvailabilityRule ruleId (snd (setAvailability ruleId stamp blockNine yearBlocked)) =
     (Inr (), yearBlocked)"
proof -
  have "ruleId \<notin> rule_id ` set (availabilityRules yearBlocked)"
    using ruleId_other by (simp add: yearBlocked_rules)
  from delete_new_rule [OF this, of stamp blockNine] show ?thesis
    by (simp add: yearBlocked_rules blockNine_def)
qed

lemma monday_nine_reports:
  "slots s = slots freshStore \<Longrightarrow>
     reported ''2024-01-08-09:00'' (fst (getAvailableSlots s)) =
       [''2024-01-08-09:00'' \<notin> set (bookedSlotIds s) \<and> ''2024-01-08-09:00'' \<notin> blockedSlotIds s]"
  by (simp add: reported_getAvailableSlots monday_nine_only)

lemma blocked_no_rules: "blockedSlotIds (s\<lparr>availabilityRules := []\<rparr>) = {}"
  by (simp add: blockedSlotIds_def)

text \<open>
  The claim as stated fails on stores where the slot, though no booking has it, is not
  available to begin with. When an earlier rule for Monday blocked 09:00, the slot is
  unavailable before and available after blocking and deleting: the earlier rule is not
  restored. When the rule with the date \<^verbatim>\<open>2024\<close> blocks it, the slot is still unavailable
  after the deletion.
\<close>

theorem block_then_delete_not_restoring:
  "bookedSlotIds nineBlocked = [] \<and>
   reported ''2024-01-08-09:00'' (fst (getAvailableSlots nineBlocked)) = [False] \<and>
   fst (deleteAvailabilityRule ruleId
          (snd (setAvailability ruleId stamp blockNine nineBlocked))) = Inr () \<and>
   reported ''2024-01-08-09:00'' (fst (getAvailableSlots (blockThenDelete nineBlocked))) = [True] \<and>
   bookedSlotIds yearBlocked = [] \<and>
   fst (deleteAvailabilityRule ruleId
          (snd (setAvailability ruleId stamp blockNine yearBlocked))) = Inr () \<and>
   reported ''2024-01-08-09:00'' (fst (getAvailableSlots (blockThenDelete yearBlocked))) = [False]"
  by (simp add: blockThenDelete_def nineBlocked_round_trip yearBlocked_round_trip
      monday_nine_reports blocked_stores_frame blocked_stores_unbooked nineBlocked_blocked
      yearBlocked_blocked blocked_no_rules)

text \<open>
  Claim C10, as the code has it. A rule that does not block adds nothing to the blocked
  slots, but \<^verbatim>\<open>setAvailability\<close> first removes the rules for its date: the flags after the
  call are those of the store without the rules for that date. They are the flags from
  before the call when no blocking rule for that date was there.
\<close>

theorem nonblocking_rule_replaces:
  assumes "\<not> data_isBlocked a"
  shows
    "fst (getAvailableSlots (snd (setAvailability newId created a s))) =
       fst (getAvailableSlots (s\<lparr>availabilityRules :=
          filter (\<lambda>r. rule_date r \<noteq> data_date a) (availabilityRules s)\<rparr>)) \<and>
     (\<not> (\<exists>r\<in>set (availabilityRules s). isBlocked r \<and> rule_date r = data_date a) \<longrightarrow>
        fst (getAvailableSlots (snd (setAvailability newId created a s))) =
          fst (getAvailableSlots s))"
proof -
  have "blockedSlotIds (snd (setAvailability newId created a s)) =
      blockedSlotIds (s\<lparr>availabilityRules :=
          filter (\<lambda>r. rule_date r \<noteq> data_date a) (availabilityRules s)\<rparr>)"
    using assms by (simp add: blocked_setAvailability)
  then have first: "fst (getAvailableSlots (snd (setAvailability newId created a s))) =
       fst (getAvailableSlots (s\<lparr>availabilityRules :=
          filter (\<lambda>r. rule_date r \<noteq> data_date a) (availabilityRules s)\<rparr>))"
    by (simp add: getAvailableSlots_def frame bookedSlotIds_def)
  have "fst (getAvailableSlots (s\<lparr>availabilityRules :=
          filter (\<lambda>r. rule_date r \<noteq> data_date a) (availabilityRules s)\<rparr>)) =
        fst (getAvailableSlots s)"
    if "\<not> (\<exists>r\<in>set (availabilityRules s). isBlocked r \<and> rule_date r = data_date a)"
    using blocked_filter_same [OF that] by (simp add: getAvailableSlots_def)
  with first show ?thesis by simp
qed

lemma openMonday_fields: "\<not> data_isBlocked openMonday" "data_date openMonday = ''2024-01-08''"
  by (simp_all add: openMonday_def)

lemma yearBlocked_no_monday_rule:
  "\<not> (\<exists>r\<in>set (availabilityRules yearBlocked). isBlocked r \<and> rule_date r = data_date openMonday)"
  by (simp add: yearBlocked_rules openMonday_def)

text \<open>Opening Monday on a store whose only rule has another date changes no flag.\<close>

theorem nonblocking_rule_replaces_witness:
  "\<not> data_isBlocked openMonday \<and>
   map rule_date (availabilityRules yearBlocked) = [''2024''] \<and>
   fst (getAvailableSlots (snd (setAvailability ruleId stamp openMonday yearBlocked))) =
     fst (getAvailableSlots yearBlocked)"
proof -
  have "fst (getAvailableSlots (snd (setAvailability ruleId stamp openMonday yearBlocked))) =
     fst (getAvailableSlots yearBlocked)"
    using nonblocking_rule_replaces [OF openMonday_fields(1), of ruleId stamp yearBlocked]
      yearBlocked_no_monday_rule
    by blast
  then show ?thesis
    using openMonday_fields(1) by (simp add: yearBlocked_rules)
qed

lemma nineBlocked_opened:
  "availabilityRules (snd (setAvailability ruleId stamp openMonday nineBlocked)) =
     [\<lparr>rule_id = ruleId, rule_date = ''2024-01-08'', timeSlots = [], isBlocked = False,
       rule_reason = None, rule_createdAt = stamp\<rparr>]"
  by (simp add: setAvailability_def Let_def openMonday_def nineBlocked_rules)

text \<open>
  The claim as stated fails: on the store where a rule blocks Monday 09:00, a rule for
  Monday that does not block replaces it, and the slot turns from unavailable to
  available.
\<close>

theorem nonblocking_rule_unblocks:
  "\<not> data_isBlocked openMonday \<and>
   reported ''2024-01-08-09:00'' (fst (getAvailableSlots nineBlocked)) = [False] \<and>
   reported ''2024-01-08-09:00''
     (fst (getAvailableSlots (snd (setAvailability ruleId stamp openMonday nineBlocked)))) =
     [True] \<and>
   fst (getAvailableSlots (snd (setAvailability ruleId stamp openMonday nineBlocked))) \<noteq>
     fst (getAvailableSlots nineBlocked)"
proof -
  have before: "reported ''2024-01-08-09:00'' (fst (getAvailableSlots nineBlocked)) = [False]"
    by (simp add: monday_nine_reports blocked_stores_frame nineBlocked_blocked)
  have after: "reported ''2024-01-08-09:00''
     (fst (getAvailableSlots (snd (setAvailability ruleId stamp openMonday nineBlocked)))) =
     [True]"
    by (simp add: monday_nine_reports frame blocked_stores_frame bookedSlotIds_def
        blockedSlotIds_def nineBlocked_opened)
  from before after have
    "fst (getAvailableSlots (snd (setAvailability ruleId stamp openMonday nineBlocked))) \<noteq>
     fst (getAvailableSlots nineBlocked)"
    by auto
  with before after openMonday_fields(1) show ?thesis by simp
qed

end
